theory Spec2Isabelle
  imports Main
begin

section \<open>Python values, errors and the external collaborators\<close>

text \<open>
  The module \<^verbatim>\<open>agentmemory/postgres.py\<close> keeps memories in one table per category,
  \<^verbatim>\<open>memory_<category>\<close>, through a psycopg2 cursor. A Python value that the code
  inspects with \<^verbatim>\<open>isinstance\<close>, passes as a statement parameter or reads back from a
  row is a \<open>pyval\<close>: \<open>None\<close>, a \<open>bool\<close> (a subclass of \<open>int\<close>), an \<open>int\<close>, a
  \<open>str\<close>, an embedding vector or a float (the distance column). Embeddings and distances
  are type parameters: the embedding model and the distance operator of the engine are
  external.

  Metadata dictionaries map string keys to text or \<open>None\<close>: the metadata columns are
  \<^verbatim>\<open>TEXT\<close>, and other scalars would be rewritten by the engine's casts, which are
  outside this development. A dictionary is an association list in insertion order.
\<close>

datatype ('e, 'd) pyval = PNone | PBool bool | PInt int | PStr string | PVec 'e | PFloat 'd

type_synonym pydict = "(string \<times> string option) list"

datatype pg_error =
    UndefinedTable
  | UndefinedColumn
  | DuplicateColumn
  | SyntaxError
  | UniqueViolation
  | NotNullViolation
  | InvalidTextRepresentation
  | NumericValueOutOfRange
  | InvalidRowCount

text \<open>
  \<open>PyException msg\<close> is the source's own \<^verbatim>\<open>raise Exception(msg)\<close>; \<open>ValueError\<close> is what
  \<^verbatim>\<open>int(s)\<close> raises on a string that is no integer literal (a subclass of
  \<^verbatim>\<open>Exception\<close>); \<open>TypeError\<close> is \<^verbatim>\<open>zip\<close> or \<^verbatim>\<open>for\<close> over \<open>None\<close>;
  \<open>EngineError\<close> is an error of the storage engine, raised by \<^verbatim>\<open>cur.execute\<close>.
\<close>

datatype error =
    PyException string
  | ValueError
  | TypeError
  | KeyError
  | IndexError
  | EngineError pg_error

text \<open>
  The collaborators: the embedding model (\<^verbatim>\<open>infer_embeddings\<close>), the distance operator
  \<^verbatim>\<open><->\<close> of the vector extension, the engine's input functions that read an
  integer and a vector from a text parameter (used when a metadata key names the column
  \<^verbatim>\<open>id\<close> or \<^verbatim>\<open>embedding\<close>), and the engine's verdict on the text spliced into
  \<^verbatim>\<open>ALTER TABLE ... ADD COLUMN\<close> as the column name.
\<close>

record ('e, 'd) ext =
  infer_embedding :: "string \<Rightarrow> 'e"
  vec_distance :: "'e \<Rightarrow> 'e \<Rightarrow> 'd"
  int4_in :: "string \<Rightarrow> int option"
  vector_in :: "string \<Rightarrow> 'e option"
  column_name_ok :: "string \<Rightarrow> bool"

subsection \<open>Python built-ins used by the module\<close>

definition is_ascii_digit :: "char \<Rightarrow> bool" where
  "is_ascii_digit c = (48 \<le> (of_char c :: nat) \<and> (of_char c :: nat) \<le> 57)"

text \<open>\<^verbatim>\<open>str.isdigit\<close>: on Latin-1 the superscripts 0xB2, 0xB3 and 0xB9 count as digits.\<close>

definition isdigit_char :: "char \<Rightarrow> bool" where
  "isdigit_char c = (is_ascii_digit c \<or> c = CHR 0xB2 \<or> c = CHR 0xB3 \<or> c = CHR 0xB9)"

definition isdigit :: "string \<Rightarrow> bool" where
  "isdigit s = (s \<noteq> [] \<and> list_all isdigit_char s)"

definition isspace_char :: "char \<Rightarrow> bool" where
  "isspace_char c =
     (let n = (of_char c :: nat)
      in (9 \<le> n \<and> n \<le> 13) \<or> (28 \<le> n \<and> n \<le> 32) \<or> n = 133 \<or> n = 160)"

definition strip :: "string \<Rightarrow> string" where
  "strip s = rev (dropWhile isspace_char (rev (dropWhile isspace_char s)))"

text \<open>
  The digits of an integer literal: decimal digits, with single underscores between
  digits. The flag says whether the previous character was a digit.
\<close>

fun int_digits :: "bool \<Rightarrow> nat \<Rightarrow> string \<Rightarrow> nat option" where
  "int_digits prev acc [] = (if prev then Some acc else None)"
| "int_digits prev acc (c # cs) =
     (if is_ascii_digit c then int_digits True (10 * acc + (of_char c - 48)) cs
      else if c = CHR ''_'' \<and> prev then
        (case cs of
           [] \<Rightarrow> None
         | d # _ \<Rightarrow> if is_ascii_digit d then int_digits False acc cs else None)
      else None)"

text \<open>
  \<^verbatim>\<open>int(s)\<close> for a string, base 10: \<open>None\<close> stands for \<^verbatim>\<open>ValueError\<close>. Characters
  are Latin-1 code points; the bound that recent Python versions put on the number of
  digits is not modelled.
\<close>

definition int_of_str :: "string \<Rightarrow> int option" where
  "int_of_str s =
     (case strip s of
        [] \<Rightarrow> None
      | c # cs \<Rightarrow>
          if c = CHR ''-'' then map_option (\<lambda>n. - int n) (int_digits False 0 cs)
          else if c = CHR ''+'' then map_option int (int_digits False 0 cs)
          else map_option int (int_digits False 0 (c # cs)))"

fun dec_nat :: "nat \<Rightarrow> string" where
  "dec_nat n =
     (if n < 10 then [char_of (48 + n)]
      else dec_nat (n div 10) @ [char_of (48 + n mod 10)])"

text \<open>\<^verbatim>\<open>str(i)\<close> for an \<open>int\<close>, a \<open>bool\<close> or a \<open>str\<close>; other values are not asked for.\<close>

fun py_str :: "('e, 'd) pyval \<Rightarrow> string" where
  "py_str (PInt i) = (if i < 0 then CHR ''-'' # dec_nat (nat (- i)) else dec_nat (nat i))"
| "py_str (PBool b) = (if b then ''True'' else ''False'')"
| "py_str (PStr s) = s"
| "py_str _ = []"

fun is_int :: "('e, 'd) pyval \<Rightarrow> bool" where
  "is_int (PInt _) = True"
| "is_int (PBool _) = True"
| "is_int _ = False"

fun is_str :: "('e, 'd) pyval \<Rightarrow> bool" where
  "is_str (PStr _) = True"
| "is_str _ = False"

text \<open>\<^verbatim>\<open>int(i)\<close> on a value that passed the \<^verbatim>\<open>isinstance\<close> test.\<close>

fun py_int :: "('e, 'd) pyval \<Rightarrow> error + int" where
  "py_int (PInt i) = Inr i"
| "py_int (PBool b) = Inr (if b then 1 else 0)"
| "py_int (PStr s) = (case int_of_str s of None \<Rightarrow> Inl ValueError | Some i \<Rightarrow> Inr i)"
| "py_int _ = Inl TypeError"

text \<open>\<^verbatim>\<open>[int(i) for i in ids]\<close>: the first failing conversion raises.\<close>

fun ints_of :: "('e, 'd) pyval list \<Rightarrow> error + int list" where
  "ints_of [] = Inr []"
| "ints_of (v # vs) =
     (case py_int v of
        Inl e \<Rightarrow> Inl e
      | Inr i \<Rightarrow> (case ints_of vs of Inl e \<Rightarrow> Inl e | Inr is \<Rightarrow> Inr (i # is)))"

definition startswith :: "string \<Rightarrow> string \<Rightarrow> bool" where
  "startswith s p = (take (length p) s = p)"

fun split_on :: "char \<Rightarrow> string \<Rightarrow> string list" where
  "split_on sep [] = [[]]"
| "split_on sep (c # cs) =
     (if c = sep then [] # split_on sep cs
      else (case split_on sep cs of [] \<Rightarrow> [[c]] | p # ps \<Rightarrow> (c # p) # ps))"

text \<open>
  A \<^verbatim>\<open>dict\<close> keeps its keys in insertion order; storing under a key that is present
  replaces the value in place. \<open>dict_of\<close> is \<^verbatim>\<open>dict(pairs)\<close> and \<open>getitem\<close> is
  \<^verbatim>\<open>d[k]\<close>.
\<close>

fun dict_set :: "'k \<Rightarrow> 'v \<Rightarrow> ('k \<times> 'v) list \<Rightarrow> ('k \<times> 'v) list" where
  "dict_set k v [] = [(k, v)]"
| "dict_set k v (p # d) = (if fst p = k then (k, v) # d else p # dict_set k v d)"

definition dict_of :: "('k \<times> 'v) list \<Rightarrow> ('k \<times> 'v) list" where
  "dict_of kvs = foldl (\<lambda>d p. dict_set (fst p) (snd p) d) [] kvs"

definition getitem :: "('k \<times> 'v) list \<Rightarrow> 'k \<Rightarrow> error + 'v" where
  "getitem d k = (case map_of d k of None \<Rightarrow> Inl KeyError | Some v \<Rightarrow> Inr v)"

text \<open>\<^verbatim>\<open>columns.index(col)\<close> followed by \<^verbatim>\<open>row[...]\<close>: the first position wins.\<close>

fun row_at :: "string list \<Rightarrow> 'v list \<Rightarrow> string \<Rightarrow> error + 'v" where
  "row_at [] vs col = Inl ValueError"
| "row_at (c # cs) [] col = (if c = col then Inl IndexError else row_at cs [] col)"
| "row_at (c # cs) (v # vs) col = (if c = col then Inr v else row_at cs vs col)"

section \<open>The storage engine\<close>

text \<open>
  The engine is a catalogue of tables in creation order, keyed by the table name as the
  statement spells it. Every table has the base columns \<^verbatim>\<open>id\<close> (integer primary key),
  \<^verbatim>\<open>document\<close> (text, not null) and \<^verbatim>\<open>embedding\<close> (vector, nullable), followed by its
  metadata columns (text, nullable) in the order they were added. A row keeps the base
  columns as fields and its metadata cells as a dictionary; \<open>None\<close> is the SQL null.

  What the model fixes where the engine is free or richer: table names are taken verbatim
  (no quoting, case folding or keyword check), and so is a column name that the engine
  accepts; system columns are not listed; rows come back in storage order
  where the statement does not order them, ties of an ordered statement keep storage
  order, and every statement is committed as it is executed (the module commits after
  each write). After an error of the engine the driver leaves the transaction aborted
  until a rollback, which the module never issues; the model does not follow a session
  beyond such an error. The record \<open>issued\<close> lists the statements that reached the
  engine.
\<close>

record 'e row =
  r_id :: int
  r_document :: string
  r_embedding :: "'e option"
  r_meta :: pydict

record 'e table =
  t_columns :: "string list"
  t_rows :: "'e row list"

type_synonym 'e catalog = "(string \<times> 'e table) list"

datatype cond = IdAny "int list" | DocumentLike string | ColumnEq string "string option"

datatype 'e stmt =
    CreateTableIfNotExists string
  | SelectCount string
  | SelectColumnExists string string
  | AlterAddColumn string string
  | InsertRow string int string 'e pydict
  | SelectPage string int int
  | SelectByIds string "int list" int int
  | SelectNearest string 'e int
  | UpdateRow string "(string \<times> 'e) option" pydict int
  | DeleteWhere string "cond list"
  | SelectTables
  | DropTableIfExists string

record 'e db =
  tables :: "'e catalog"
  issued :: "'e stmt list"

type_synonym ('e, 'a) io = "'e db \<Rightarrow> (error + 'a) \<times> 'e db"

definition ret :: "'a \<Rightarrow> ('e, 'a) io" where
  "ret a s = (Inr a, s)"

definition raise :: "error \<Rightarrow> ('e, 'a) io" where
  "raise e s = (Inl e, s)"

text \<open>Sequencing: an exception ends the call and keeps the state reached so far.\<close>

definition seq :: "('e, 'a) io \<Rightarrow> ('a \<Rightarrow> ('e, 'b) io) \<Rightarrow> ('e, 'b) io" where
  "seq m f s = (case m s of (Inl e, s') \<Rightarrow> (Inl e, s') | (Inr a, s') \<Rightarrow> f a s')"

text \<open>\<^verbatim>\<open>cur.execute\<close>: the statement reaches the engine, which answers or raises.\<close>

definition run ::
  "'e stmt \<Rightarrow> ('e catalog \<Rightarrow> pg_error + 'a \<times> 'e catalog) \<Rightarrow> ('e, 'a) io" where
  "run q f s =
     (case f (tables s) of
        Inl e \<Rightarrow> (Inl (EngineError e), s\<lparr>issued := issued s @ [q]\<rparr>)
      | Inr (a, ts) \<Rightarrow> (Inr a, s\<lparr>tables := ts, issued := issued s @ [q]\<rparr>))"

subsection \<open>What each statement does\<close>

definition base_columns :: "string list" where
  "base_columns = [''id'', ''document'', ''embedding'']"

definition columns_of :: "'e table \<Rightarrow> string list" where
  "columns_of t = base_columns @ t_columns t"

definition find_table :: "'e catalog \<Rightarrow> string \<Rightarrow> pg_error + 'e table" where
  "find_table ts n = (case map_of ts n of None \<Rightarrow> Inl UndefinedTable | Some t \<Rightarrow> Inr t)"

definition put_table :: "string \<Rightarrow> 'e table \<Rightarrow> 'e catalog \<Rightarrow> 'e catalog" where
  "put_table n t ts = map (\<lambda>p. if fst p = n then (n, t) else p) ts"

definition cell :: "'e row \<Rightarrow> string \<Rightarrow> string option" where
  "cell r c = (case map_of (r_meta r) c of None \<Rightarrow> None | Some v \<Rightarrow> v)"

definition set_cell :: "string \<Rightarrow> string option \<Rightarrow> 'e row \<Rightarrow> 'e row" where
  "set_cell c v r = r\<lparr>r_meta := filter (\<lambda>p. fst p \<noteq> c) (r_meta r) @ [(c, v)]\<rparr>"

definition in_int4 :: "int \<Rightarrow> bool" where
  "in_int4 i = (- 2147483648 \<le> i \<and> i \<le> 2147483647)"

definition pg_create_table :: "string \<Rightarrow> 'e catalog \<Rightarrow> pg_error + unit \<times> 'e catalog" where
  "pg_create_table n ts =
     Inr ((), if map_of ts n = None then ts @ [(n, \<lparr>t_columns = [], t_rows = []\<rparr>)] else ts)"

definition pg_count :: "string \<Rightarrow> 'e catalog \<Rightarrow> pg_error + int \<times> 'e catalog" where
  "pg_count n ts =
     (case find_table ts n of Inl e \<Rightarrow> Inl e | Inr t \<Rightarrow> Inr (int (length (t_rows t)), ts))"

definition pg_column_exists ::
  "string \<Rightarrow> string \<Rightarrow> 'e catalog \<Rightarrow> pg_error + bool \<times> 'e catalog" where
  "pg_column_exists n k ts =
     (case find_table ts n of Inl e \<Rightarrow> Inl e | Inr t \<Rightarrow> Inr (k \<in> set (columns_of t), ts))"

definition pg_add_column ::
  "('e, 'd) ext \<Rightarrow> string \<Rightarrow> string \<Rightarrow> 'e catalog \<Rightarrow> pg_error + unit \<times> 'e catalog" where
  "pg_add_column x n k ts =
     (case find_table ts n of
        Inl e \<Rightarrow> Inl e
      | Inr t \<Rightarrow>
          if \<not> column_name_ok x k then Inl SyntaxError
          else if k \<in> set (columns_of t) then Inl DuplicateColumn
          else Inr ((), put_table n
                 (t\<lparr>t_columns := t_columns t @ [k],
                    t_rows := map (set_cell k None) (t_rows t)\<rparr>) ts))"

text \<open>
  The target list of an \<^verbatim>\<open>INSERT\<close> or \<^verbatim>\<open>UPDATE\<close>, read left to right: a name that is
  no column is rejected, and so is a name given twice.
\<close>

fun check_targets :: "string list \<Rightarrow> pg_error \<Rightarrow> string list \<Rightarrow> string list \<Rightarrow> pg_error option" where
  "check_targets cols dup seen [] = None"
| "check_targets cols dup seen (c # cs) =
     (if c \<notin> set cols then Some UndefinedColumn
      else if c \<in> set seen then Some dup
      else check_targets cols dup (c # seen) cs)"

definition pg_insert ::
  "string \<Rightarrow> int \<Rightarrow> string \<Rightarrow> 'e \<Rightarrow> pydict \<Rightarrow> 'e catalog \<Rightarrow> pg_error + int \<times> 'e catalog" where
  "pg_insert n i doc emb md ts =
     (case find_table ts n of
        Inl e \<Rightarrow> Inl e
      | Inr t \<Rightarrow>
          (case check_targets (columns_of t) DuplicateColumn [] (base_columns @ map fst md) of
             Some e \<Rightarrow> Inl e
           | None \<Rightarrow>
               if \<not> in_int4 i then Inl NumericValueOutOfRange
               else if i \<in> set (map r_id (t_rows t)) then Inl UniqueViolation
               else Inr (i, put_table n
                      (t\<lparr>t_rows := t_rows t @
                          [\<lparr>r_id = i, r_document = doc, r_embedding = Some emb,
                            r_meta = map (\<lambda>c. (c, case map_of md c of None \<Rightarrow> None | Some v \<Rightarrow> v))
                                       (t_columns t)\<rparr>]\<rparr>) ts)))"

fun vec_val :: "'e option \<Rightarrow> ('e, 'd) pyval" where
  "vec_val None = PNone"
| "vec_val (Some e) = PVec e"

fun text_val :: "string option \<Rightarrow> ('e, 'd) pyval" where
  "text_val None = PNone"
| "text_val (Some s) = PStr s"

fun dist_val :: "'d option \<Rightarrow> ('e, 'd) pyval" where
  "dist_val None = PNone"
| "dist_val (Some d) = PFloat d"

text \<open>The values of \<^verbatim>\<open>SELECT *\<close> for one row, as the driver hands them to Python.\<close>

definition row_values :: "'e table \<Rightarrow> 'e row \<Rightarrow> ('e, 'd) pyval list" where
  "row_values t r =
     [PInt (r_id r), PStr (r_document r), vec_val (r_embedding r)]
       @ map (\<lambda>c. text_val (cell r c)) (t_columns t)"

definition page :: "int \<Rightarrow> int \<Rightarrow> 'a list \<Rightarrow> 'a list" where
  "page limit offset xs = take (nat limit) (drop (nat offset) xs)"

definition pg_select_page ::
  "string \<Rightarrow> int \<Rightarrow> int \<Rightarrow> 'e catalog
     \<Rightarrow> pg_error + (string list \<times> ('e, 'd) pyval list list) \<times> 'e catalog" where
  "pg_select_page n limit offset ts =
     (case find_table ts n of
        Inl e \<Rightarrow> Inl e
      | Inr t \<Rightarrow>
          if limit < 0 \<or> offset < 0 then Inl InvalidRowCount
          else Inr ((columns_of t, map (row_values t) (page limit offset (t_rows t))), ts))"

definition pg_select_ids ::
  "string \<Rightarrow> int list \<Rightarrow> int \<Rightarrow> int \<Rightarrow> 'e catalog
     \<Rightarrow> pg_error + (string list \<times> ('e, 'd) pyval list list) \<times> 'e catalog" where
  "pg_select_ids n ids limit offset ts =
     (case find_table ts n of
        Inl e \<Rightarrow> Inl e
      | Inr t \<Rightarrow>
          if limit < 0 \<or> offset < 0 then Inl InvalidRowCount
          else Inr ((columns_of t,
                 map (row_values t)
                   (page limit offset (filter (\<lambda>r. r_id r \<in> set ids) (t_rows t)))), ts))"

text \<open>
  The nearest-neighbour statement of \<^verbatim>\<open>PostgresClient.query\<close>: rows in ascending distance
  of the embedding to the query vector, rows without an embedding last (the distance of
  a null is null, and nulls sort last in ascending order), then the limit.
\<close>

definition ranked :: "('e, 'd::linorder) ext \<Rightarrow> 'e \<Rightarrow> 'e row list \<Rightarrow> ('d option \<times> 'e row) list" where
  "ranked x q rs =
     map (\<lambda>p. (Some (fst p), snd p))
       (sort_key fst
          (List.map_filter (\<lambda>r. map_option (\<lambda>e. (vec_distance x e q, r)) (r_embedding r)) rs))
     @ map (\<lambda>r. (None, r)) (filter (\<lambda>r. r_embedding r = None) rs)"

definition nearest :: "('e, 'd::linorder) ext \<Rightarrow> 'e \<Rightarrow> int \<Rightarrow> 'e row list \<Rightarrow> ('d option \<times> 'e row) list" where
  "nearest x q k rs = take (nat k) (ranked x q rs)"

definition nearest_columns :: "'e table \<Rightarrow> string list" where
  "nearest_columns t = [''id'', ''document'', ''embedding'', ''distance''] @ columns_of t"

definition nearest_values :: "'e table \<Rightarrow> 'd option \<times> 'e row \<Rightarrow> ('e, 'd) pyval list" where
  "nearest_values t p =
     [PInt (r_id (snd p)), PStr (r_document (snd p)), vec_val (r_embedding (snd p)),
      dist_val (fst p)] @ row_values t (snd p)"

definition pg_nearest ::
  "('e, 'd::linorder) ext \<Rightarrow> string \<Rightarrow> 'e \<Rightarrow> int \<Rightarrow> 'e catalog
     \<Rightarrow> pg_error + (string list \<times> ('e, 'd) pyval list list) \<times> 'e catalog" where
  "pg_nearest x n q k ts =
     (case find_table ts n of
        Inl e \<Rightarrow> Inl e
      | Inr t \<Rightarrow>
          if k < 0 then Inl InvalidRowCount
          else Inr ((nearest_columns t, map (nearest_values t) (nearest x q k (t_rows t))), ts))"

text \<open>
  \<^verbatim>\<open>UPDATE ... SET ... WHERE id = i\<close>. The targets are \<^verbatim>\<open>document\<close> and
  \<^verbatim>\<open>embedding\<close> (when the module sets them) followed by the metadata keys; a key may
  name a base column, whose text parameter goes through the column's input function.
\<close>

datatype 'e assignment =
    SetId int
  | SetIdNull
  | SetDocument string
  | SetDocumentNull
  | SetEmbedding "'e option"
  | SetCell string "string option"

definition coerce :: "('e, 'd) ext \<Rightarrow> string \<times> string option \<Rightarrow> pg_error + 'e assignment" where
  "coerce x kv =
     (if fst kv = ''id'' then
        (case snd kv of
           None \<Rightarrow> Inr SetIdNull
         | Some s \<Rightarrow>
             (case int4_in x s of
                None \<Rightarrow> Inl InvalidTextRepresentation
              | Some i \<Rightarrow> if in_int4 i then Inr (SetId i) else Inl NumericValueOutOfRange))
      else if fst kv = ''document'' then
        (case snd kv of None \<Rightarrow> Inr SetDocumentNull | Some s \<Rightarrow> Inr (SetDocument s))
      else if fst kv = ''embedding'' then
        (case snd kv of
           None \<Rightarrow> Inr (SetEmbedding None)
         | Some s \<Rightarrow>
             (case vector_in x s of
                None \<Rightarrow> Inl InvalidTextRepresentation
              | Some e \<Rightarrow> Inr (SetEmbedding (Some e))))
      else Inr (SetCell (fst kv) (snd kv)))"

fun coerce_all :: "('e, 'd) ext \<Rightarrow> pydict \<Rightarrow> pg_error + 'e assignment list" where
  "coerce_all x [] = Inr []"
| "coerce_all x (kv # md) =
     (case coerce x kv of
        Inl e \<Rightarrow> Inl e
      | Inr a \<Rightarrow> (case coerce_all x md of Inl e \<Rightarrow> Inl e | Inr as \<Rightarrow> Inr (a # as)))"

fun assign :: "'e assignment \<Rightarrow> 'e row \<Rightarrow> pg_error + 'e row" where
  "assign (SetId i) r = Inr (r\<lparr>r_id := i\<rparr>)"
| "assign SetIdNull r = Inl NotNullViolation"
| "assign (SetDocument d) r = Inr (r\<lparr>r_document := d\<rparr>)"
| "assign SetDocumentNull r = Inl NotNullViolation"
| "assign (SetEmbedding e) r = Inr (r\<lparr>r_embedding := e\<rparr>)"
| "assign (SetCell c v) r = Inr (set_cell c v r)"

fun assign_all :: "'e assignment list \<Rightarrow> 'e row \<Rightarrow> pg_error + 'e row" where
  "assign_all [] r = Inr r"
| "assign_all (a # as) r = (case assign a r of Inl e \<Rightarrow> Inl e | Inr r' \<Rightarrow> assign_all as r')"

fun update_rows :: "'e assignment list \<Rightarrow> int \<Rightarrow> 'e row list \<Rightarrow> pg_error + 'e row list" where
  "update_rows as i [] = Inr []"
| "update_rows as i (r # rs) =
     (case (if r_id r = i then assign_all as r else Inr r) of
        Inl e \<Rightarrow> Inl e
      | Inr r' \<Rightarrow> (case update_rows as i rs of Inl e \<Rightarrow> Inl e | Inr rs' \<Rightarrow> Inr (r' # rs')))"

definition pg_update ::
  "('e, 'd) ext \<Rightarrow> string \<Rightarrow> (string \<times> 'e) option \<Rightarrow> pydict \<Rightarrow> int \<Rightarrow> 'e catalog
     \<Rightarrow> pg_error + unit \<times> 'e catalog" where
  "pg_update x n de md i ts =
     (case find_table ts n of
        Inl e \<Rightarrow> Inl e
      | Inr t \<Rightarrow>
          (let targets = (case de of None \<Rightarrow> [] | Some _ \<Rightarrow> [''document'', ''embedding''])
                           @ map fst md
           in if targets = [] then Inl SyntaxError
              else
                (case check_targets (columns_of t) SyntaxError [] targets of
                   Some e \<Rightarrow> Inl e
                 | None \<Rightarrow>
                     (case coerce_all x md of
                        Inl e \<Rightarrow> Inl e
                      | Inr as \<Rightarrow>
                          (case update_rows
                                  ((case de of
                                      None \<Rightarrow> []
                                    | Some p \<Rightarrow> [SetDocument (fst p), SetEmbedding (Some (snd p))])
                                   @ as) i (t_rows t) of
                             Inl e \<Rightarrow> Inl e
                           | Inr rs \<Rightarrow>
                               if map r_id rs \<noteq> map r_id (t_rows t) \<and> \<not> distinct (map r_id rs)
                               then Inl UniqueViolation
                               else Inr ((), put_table n (t\<lparr>t_rows := rs\<rparr>) ts))))))"

text \<open>
  \<^verbatim>\<open>LIKE\<close>: \<^verbatim>\<open>%\<close> matches any run of characters, \<^verbatim>\<open>_\<close> one character, and a
  backslash takes the next character literally.
\<close>

fun like :: "string \<Rightarrow> string \<Rightarrow> bool" where
  "like [] s = (s = [])"
| "like (p # ps) s =
     (if p = CHR ''%'' then (like ps s \<or> (case s of [] \<Rightarrow> False | _ # t \<Rightarrow> like (p # ps) t))
      else if p = CHR ''_'' then (case s of [] \<Rightarrow> False | _ # t \<Rightarrow> like ps t)
      else if p = CHR 0x5C then
        (case ps of
           [] \<Rightarrow> False
         | q # qs \<Rightarrow> (case s of [] \<Rightarrow> False | c # t \<Rightarrow> c = q \<and> like qs t))
      else (case s of [] \<Rightarrow> False | c # t \<Rightarrow> c = p \<and> like ps t))"

text \<open>
  The conditions of \<^verbatim>\<open>DELETE ... WHERE\<close>: each is checked when the statement is
  analysed, then a row is deleted when all of them hold. A comparison with a null
  parameter holds for no row.
\<close>

fun check_cond :: "('e, 'd) ext \<Rightarrow> 'e table \<Rightarrow> cond \<Rightarrow> pg_error option" where
  "check_cond x t (IdAny ids) = (if list_all in_int4 ids then None else Some NumericValueOutOfRange)"
| "check_cond x t (DocumentLike p) = None"
| "check_cond x t (ColumnEq k v) =
     (if k \<notin> set (columns_of t) then Some UndefinedColumn
      else
        (case v of
           None \<Rightarrow> None
         | Some s \<Rightarrow>
             if k = ''id'' \<and> int4_in x s = None then Some InvalidTextRepresentation
             else if k = ''embedding'' \<and> vector_in x s = None then Some InvalidTextRepresentation
             else None))"

fun check_conds :: "('e, 'd) ext \<Rightarrow> 'e table \<Rightarrow> cond list \<Rightarrow> pg_error option" where
  "check_conds x t [] = None"
| "check_conds x t (c # cs) =
     (case check_cond x t c of Some e \<Rightarrow> Some e | None \<Rightarrow> check_conds x t cs)"

fun holds :: "('e, 'd) ext \<Rightarrow> cond \<Rightarrow> 'e row \<Rightarrow> bool" where
  "holds x (IdAny ids) r = (r_id r \<in> set ids)"
| "holds x (DocumentLike p) r = like p (r_document r)"
| "holds x (ColumnEq k v) r =
     (case v of
        None \<Rightarrow> False
      | Some s \<Rightarrow>
          if k = ''id'' then int4_in x s = Some (r_id r)
          else if k = ''document'' then r_document r = s
          else if k = ''embedding'' then (r_embedding r \<noteq> None \<and> vector_in x s = r_embedding r)
          else cell r k = Some s)"

definition pg_delete ::
  "('e, 'd) ext \<Rightarrow> string \<Rightarrow> cond list \<Rightarrow> 'e catalog \<Rightarrow> pg_error + unit \<times> 'e catalog" where
  "pg_delete x n conds ts =
     (case find_table ts n of
        Inl e \<Rightarrow> Inl e
      | Inr t \<Rightarrow>
          (case check_conds x t conds of
             Some e \<Rightarrow> Inl e
           | None \<Rightarrow>
               Inr ((), put_table n
                      (t\<lparr>t_rows := filter (\<lambda>r. \<not> list_all (\<lambda>c. holds x c r) conds) (t_rows t)\<rparr>)
                      ts)))"

definition pg_tables :: "'e catalog \<Rightarrow> pg_error + string list \<times> 'e catalog" where
  "pg_tables ts = Inr (map fst ts, ts)"

definition pg_drop_table :: "string \<Rightarrow> 'e catalog \<Rightarrow> pg_error + unit \<times> 'e catalog" where
  "pg_drop_table n ts = Inr ((), filter (\<lambda>p. fst p \<noteq> n) ts)"

section \<open>The client and the collection\<close>

text \<open>
  \<^verbatim>\<open>PostgresClient\<close> owns the connection; a \<^verbatim>\<open>PostgresCollection\<close> is a category name
  bound to a client, so its methods take the category as an argument. The methods
  \<^verbatim>\<open>query\<close> and \<^verbatim>\<open>update\<close> exist on both classes and are told apart by a prefix.
\<close>

definition table_name :: "string \<Rightarrow> string" where
  "table_name category = ''memory_'' @ category"

definition ensure_table_exists :: "string \<Rightarrow> ('e, unit) io" where
  "ensure_table_exists category =
     run (CreateTableIfNotExists (table_name category)) (pg_create_table (table_name category))"

definition count :: "string \<Rightarrow> ('e, int) io" where
  "count category =
     seq (ensure_table_exists category)
       (\<lambda>_. run (SelectCount (table_name category)) (pg_count (table_name category)))"

text \<open>The loop over \<^verbatim>\<open>metadata.keys()\<close>: one catalogue lookup per key, then the column.\<close>

fun ensure_metadata_columns_exist :: "('e, 'd) ext \<Rightarrow> string \<Rightarrow> pydict \<Rightarrow> ('e, unit) io" where
  "ensure_metadata_columns_exist x category [] s = (Inr (), s)"
| "ensure_metadata_columns_exist x category (kv # metadata) s =
     (case run (SelectColumnExists (table_name category) (fst kv))
             (pg_column_exists (table_name category) (fst kv)) s of
        (Inl e, s') \<Rightarrow> (Inl e, s')
      | (Inr found, s') \<Rightarrow>
          if \<not> found then
            (case run (AlterAddColumn (table_name category) (fst kv))
                    (pg_add_column x (table_name category) (fst kv)) s' of
               (Inl e, s'') \<Rightarrow> (Inl e, s'')
             | (Inr _, s'') \<Rightarrow> ensure_metadata_columns_exist x category metadata s'')
          else ensure_metadata_columns_exist x category metadata s')"

definition create_embedding :: "('e, 'd) ext \<Rightarrow> string \<Rightarrow> 'e" where
  "create_embedding x document = infer_embedding x document"

definition insert_memory ::
  "('e, 'd) ext \<Rightarrow> string \<Rightarrow> string \<Rightarrow> pydict \<Rightarrow> 'e option \<Rightarrow> int option \<Rightarrow> ('e, int) io" where
  "insert_memory x category document metadata embedding ident =
     seq (ensure_table_exists category) (\<lambda>_.
     seq (ensure_metadata_columns_exist x category metadata) (\<lambda>_.
     (let embedding = (case embedding of None \<Rightarrow> create_embedding x document | Some e \<Rightarrow> e)
      in seq (case ident of None \<Rightarrow> count category | Some i \<Rightarrow> ret i) (\<lambda>ident.
           run (InsertRow (table_name category) ident document embedding metadata)
             (pg_insert (table_name category) ident document embedding metadata)))))"

text \<open>
  \<^verbatim>\<open>PostgresCollection.add\<close>. The loop variable \<^verbatim>\<open>id_\<close> is bound by the \<^verbatim>\<open>zip\<close> and
  not passed on: \<^verbatim>\<open>insert_memory\<close> is called without an id. A \<open>None\<close> in place of
  \<^verbatim>\<open>documents\<close> or \<^verbatim>\<open>metadatas\<close> makes \<^verbatim>\<open>zip\<close> raise.
\<close>

fun add_loop ::
  "('e, 'd) ext \<Rightarrow> string \<Rightarrow> (('e, 'd) pyval \<times> string \<times> pydict \<times> 'e option) list \<Rightarrow> ('e, unit) io" where
  "add_loop x category [] s = (Inr (), s)"
| "add_loop x category (p # rest) s =
     (case insert_memory x category (fst (snd p)) (fst (snd (snd p))) (snd (snd (snd p))) None s of
        (Inl e, s') \<Rightarrow> (Inl e, s')
      | (Inr _, s') \<Rightarrow> add_loop x category rest s')"

definition add ::
  "('e, 'd) ext \<Rightarrow> string \<Rightarrow> ('e, 'd) pyval list \<Rightarrow> string list option \<Rightarrow> pydict list option
     \<Rightarrow> 'e list option \<Rightarrow> ('e, unit) io" where
  "add x category ids documents metadatas embeddings =
     (case documents of
        None \<Rightarrow> raise TypeError
      | Some ds \<Rightarrow>
          (case metadatas of
             None \<Rightarrow> raise TypeError
           | Some ms \<Rightarrow>
               (case embeddings of
                  None \<Rightarrow>
                    add_loop x category
                      (map (\<lambda>p. (fst p, fst (snd p), snd (snd p), None)) (zip ids (zip ds ms)))
                | Some es \<Rightarrow>
                    add_loop x category
                      (map (\<lambda>p. (fst p, fst (snd p), fst (snd (snd p)), Some (snd (snd (snd p)))))
                         (zip ids (zip ds (zip ms es)))))))"

definition upsert ::
  "('e, 'd) ext \<Rightarrow> string \<Rightarrow> ('e, 'd) pyval list \<Rightarrow> string list option \<Rightarrow> pydict list option
     \<Rightarrow> 'e list option \<Rightarrow> ('e, unit) io" where
  "upsert x category ids documents metadatas embeddings =
     add x category ids documents metadatas embeddings"

subsection \<open>Reading rows\<close>

record ('e, 'd) get_result =
  g_ids :: "('e, 'd) pyval list"
  g_documents :: "('e, 'd) pyval list"
  g_metadatas :: "(string \<times> ('e, 'd) pyval) list list"

text \<open>\<^verbatim>\<open>{col: item[col] for col in metadata_columns}\<close>\<close>

fun metadata_of ::
  "(string \<times> 'v) list \<Rightarrow> string list \<Rightarrow> (string \<times> 'v) list \<Rightarrow> error + (string \<times> 'v) list" where
  "metadata_of item [] acc = Inr acc"
| "metadata_of item (col # cols) acc =
     (case getitem item col of
        Inl e \<Rightarrow> Inl e
      | Inr v \<Rightarrow> metadata_of item cols (dict_set col v acc))"

text \<open>
  The loop over the fetched rows and the three comprehensions of the \<^verbatim>\<open>return\<close>:
  for each row its \<^verbatim>\<open>id\<close>, its \<^verbatim>\<open>document\<close> and its metadata dictionary.
\<close>

fun get_items ::
  "string list \<Rightarrow> string list \<Rightarrow> 'v list list
     \<Rightarrow> error + ('v \<times> 'v \<times> (string \<times> 'v) list) list" where
  "get_items columns metadata_columns [] = Inr []"
| "get_items columns metadata_columns (row # rows) =
     (let item = dict_of (zip columns row)
      in case metadata_of item metadata_columns [] of
           Inl e \<Rightarrow> Inl e
         | Inr metadata \<Rightarrow>
             (case get_items columns metadata_columns rows of
                Inl e \<Rightarrow> Inl e
              | Inr result \<Rightarrow>
                  (case getitem item ''id'' of
                     Inl e \<Rightarrow> Inl e
                   | Inr i \<Rightarrow>
                       (case getitem item ''document'' of
                          Inl e \<Rightarrow> Inl e
                        | Inr d \<Rightarrow> Inr ((i, d, metadata) # result)))))"

definition get_marshal ::
  "string list \<times> ('e, 'd) pyval list list \<Rightarrow> error + ('e, 'd) get_result" where
  "get_marshal fetched =
     (let columns = fst fetched;
          metadata_columns =
            filter (\<lambda>col. col \<notin> set [''id'', ''document'', ''embedding'']) columns
      in case get_items columns metadata_columns (snd fetched) of
           Inl e \<Rightarrow> Inl e
         | Inr result \<Rightarrow>
             Inr \<lparr>g_ids = map fst result,
                  g_documents = map (\<lambda>p. fst (snd p)) result,
                  g_metadatas = map (\<lambda>p. snd (snd p)) result\<rparr>)"

text \<open>
  \<^verbatim>\<open>PostgresCollection.get\<close>. The arguments \<^verbatim>\<open>where\<close>, \<^verbatim>\<open>where_document\<close> and
  \<^verbatim>\<open>include\<close> are accepted and never read.
\<close>

definition get ::
  "string \<Rightarrow> ('e, 'd) pyval list option \<Rightarrow> pydict option \<Rightarrow> int option \<Rightarrow> int option
     \<Rightarrow> pydict option \<Rightarrow> string list \<Rightarrow> ('e, ('e, 'd) get_result) io" where
  "get category ids wher limit offset where_document incl =
     seq
       (if ids = None \<or> ids = Some [] then
          (let limit = (case limit of None \<Rightarrow> 100 | Some l \<Rightarrow> l);
               offset = (case offset of None \<Rightarrow> 0 | Some off \<Rightarrow> off)
           in run (SelectPage (table_name category) limit offset)
                (pg_select_page (table_name category) limit offset))
        else
          (let ids = (case ids of None \<Rightarrow> [] | Some l \<Rightarrow> l)
           in if \<not> list_all (\<lambda>i. is_str i \<or> is_int i) ids then
                raise (PyException ''ids must be a list of integers or strings representing integers'')
              else
                (let limit = (case limit of None \<Rightarrow> int (length ids) | Some l \<Rightarrow> l);
                     offset = (case offset of None \<Rightarrow> 0 | Some off \<Rightarrow> off)
                 in case ints_of ids of
                      Inl e \<Rightarrow> raise e
                    | Inr ids \<Rightarrow>
                        run (SelectByIds (table_name category) ids limit offset)
                          (pg_select_ids (table_name category) ids limit offset))))
       (\<lambda>fetched. case get_marshal fetched of Inl e \<Rightarrow> raise e | Inr r \<Rightarrow> ret r)"

definition peek :: "string \<Rightarrow> int \<Rightarrow> ('e, ('e, 'd) get_result) io" where
  "peek category limit = get category None None (Some limit) None None [''metadatas'', ''documents'']"

subsection \<open>Similarity search\<close>

record ('e, 'd) query_result =
  q_ids :: "('e, 'd) pyval list"
  q_documents :: "('e, 'd) pyval list"
  q_metadatas :: "(string \<times> ('e, 'd) pyval) list list"
  q_embeddings :: "('e, 'd) pyval list"
  q_distances :: "('e, 'd) pyval list"

text \<open>\<^verbatim>\<open>{col: row[columns.index(col)] for col in metadata_columns}\<close>\<close>

fun query_metadata ::
  "string list \<Rightarrow> 'v list \<Rightarrow> string list \<Rightarrow> (string \<times> 'v) list \<Rightarrow> error + (string \<times> 'v) list" where
  "query_metadata columns row [] acc = Inr acc"
| "query_metadata columns row (col # cols) acc =
     (case row_at columns row col of
        Inl e \<Rightarrow> Inl e
      | Inr v \<Rightarrow> query_metadata columns row cols (dict_set col v acc))"

text \<open>The inner loop: each fetched row is appended to the five result lists.\<close>

fun append_rows ::
  "string list \<Rightarrow> string list \<Rightarrow> ('e, 'd) pyval list list \<Rightarrow> ('e, 'd) query_result
     \<Rightarrow> error + ('e, 'd) query_result" where
  "append_rows columns metadata_columns [] results = Inr results"
| "append_rows columns metadata_columns (row # rows) results =
     (case row of
        v0 # v1 # v2 # v3 # _ \<Rightarrow>
          (case query_metadata columns row metadata_columns [] of
             Inl e \<Rightarrow> Inl e
           | Inr metadata \<Rightarrow>
               append_rows columns metadata_columns rows
                 \<lparr>q_ids = q_ids results @ [v0],
                  q_documents = q_documents results @ [v1],
                  q_metadatas = q_metadatas results @ [metadata],
                  q_embeddings = q_embeddings results @ [v2],
                  q_distances = q_distances results @ [v3]\<rparr>)
      | _ \<Rightarrow> Inl IndexError)"

text \<open>The outer loop of \<^verbatim>\<open>PostgresClient.query\<close>: one statement per query text.\<close>

fun query_loop ::
  "('e, 'd::linorder) ext \<Rightarrow> string \<Rightarrow> int \<Rightarrow> string list \<Rightarrow> ('e, 'd) query_result
     \<Rightarrow> ('e, ('e, 'd) query_result) io" where
  "query_loop x category n_results [] results s = (Inr results, s)"
| "query_loop x category n_results (emb # texts) results s =
     (let query_emb = create_embedding x emb
      in case run (SelectNearest (table_name category) query_emb n_results)
                (pg_nearest x (table_name category) query_emb n_results) s of
           (Inl e, s') \<Rightarrow> (Inl e, s')
         | (Inr fetched, s') \<Rightarrow>
             (let columns = fst fetched;
                  metadata_columns =
                    filter (\<lambda>col. col \<notin> set [''id'', ''document'', ''embedding'', ''distance''])
                      columns
              in case append_rows columns metadata_columns (snd fetched) results of
                   Inl e \<Rightarrow> (Inl e, s')
                 | Inr results' \<Rightarrow> query_loop x category n_results texts results' s'))"

definition client_query ::
  "('e, 'd::linorder) ext \<Rightarrow> string \<Rightarrow> string list option \<Rightarrow> int
     \<Rightarrow> ('e, ('e, 'd) query_result) io" where
  "client_query x category query_texts n_results =
     seq (ensure_table_exists category) (\<lambda>_.
       case query_texts of
         None \<Rightarrow> raise TypeError
       | Some texts \<Rightarrow>
           query_loop x category n_results texts
             \<lparr>q_ids = [], q_documents = [], q_metadatas = [], q_embeddings = [],
              q_distances = []\<rparr>)"

text \<open>
  \<^verbatim>\<open>PostgresCollection.query\<close> hands the category, the texts and the count to the
  client; its other arguments are accepted and never read.
\<close>

definition collection_query ::
  "('e, 'd::linorder) ext \<Rightarrow> string \<Rightarrow> 'e list option \<Rightarrow> string list option \<Rightarrow> int
     \<Rightarrow> pydict option \<Rightarrow> pydict option \<Rightarrow> string list \<Rightarrow> ('e, ('e, 'd) query_result) io" where
  "collection_query x category query_embeddings query_texts n_results wher where_document incl =
     client_query x category query_texts n_results"

subsection \<open>Update and delete\<close>

text \<open>The branch \<^verbatim>\<open>elif metadata:\<close> of \<^verbatim>\<open>PostgresClient.update\<close>.\<close>

definition update_metadata ::
  "('e, 'd) ext \<Rightarrow> string \<Rightarrow> int \<Rightarrow> pydict option \<Rightarrow> ('e, unit) io" where
  "update_metadata x category ident metadata =
     (case metadata of
        None \<Rightarrow> ret ()
      | Some md \<Rightarrow>
          if md = [] then ret ()
          else
            seq (ensure_metadata_columns_exist x category md) (\<lambda>_.
              run (UpdateRow (table_name category) None md ident)
                (pg_update x (table_name category) None md ident)))"

text \<open>
  \<^verbatim>\<open>PostgresClient.update\<close>. \<^verbatim>\<open>if document:\<close> and \<^verbatim>\<open>if metadata:\<close> test
  truthiness: an empty document or an empty dictionary counts as not given.
\<close>

definition client_update ::
  "('e, 'd) ext \<Rightarrow> string \<Rightarrow> int \<Rightarrow> string option \<Rightarrow> pydict option \<Rightarrow> 'e option
     \<Rightarrow> ('e, unit) io" where
  "client_update x category ident document metadata embedding =
     seq (ensure_table_exists category) (\<lambda>_.
       case document of
         None \<Rightarrow> update_metadata x category ident metadata
       | Some d \<Rightarrow>
           if d = [] then update_metadata x category ident metadata
           else
             (let embedding = (case embedding of None \<Rightarrow> create_embedding x d | Some e \<Rightarrow> e)
              in case metadata of
                   None \<Rightarrow>
                     run (UpdateRow (table_name category) (Some (d, embedding)) [] ident)
                       (pg_update x (table_name category) (Some (d, embedding)) [] ident)
                 | Some md \<Rightarrow>
                     if md = [] then
                       run (UpdateRow (table_name category) (Some (d, embedding)) [] ident)
                         (pg_update x (table_name category) (Some (d, embedding)) [] ident)
                     else
                       seq (ensure_metadata_columns_exist x category md) (\<lambda>_.
                         run (UpdateRow (table_name category) (Some (d, embedding)) md ident)
                           (pg_update x (table_name category) (Some (d, embedding)) md ident))))"

text \<open>The three groups of conditions of \<^verbatim>\<open>PostgresCollection.delete\<close>, in its order.\<close>

definition ids_condition :: "('e, 'd) pyval list option \<Rightarrow> error + cond list" where
  "ids_condition ids =
     (case ids of
        None \<Rightarrow> Inr []
      | Some l \<Rightarrow>
          if \<not> list_all (\<lambda>i. (is_int i \<or> is_str i) \<and> isdigit (py_str i)) l then
            Inl (PyException ''ids must be a list of integers or strings representing integers'')
          else (case ints_of l of Inl e \<Rightarrow> Inl e | Inr is \<Rightarrow> Inr [IdAny is]))"

definition document_condition :: "pydict option \<Rightarrow> cond list" where
  "document_condition where_document =
     (case where_document of
        None \<Rightarrow> []
      | Some wd \<Rightarrow>
          (case map_of wd ''$contains'' of
             None \<Rightarrow> []
           | Some v \<Rightarrow>
               [DocumentLike (''%'' @ (case v of None \<Rightarrow> ''None'' | Some t \<Rightarrow> t) @ ''%'')]))"

definition where_conditions :: "pydict option \<Rightarrow> cond list" where
  "where_conditions wher =
     (case wher of None \<Rightarrow> [] | Some w \<Rightarrow> map (\<lambda>kv. ColumnEq (fst kv) (snd kv)) w)"

definition delete ::
  "('e, 'd) ext \<Rightarrow> string \<Rightarrow> ('e, 'd) pyval list option \<Rightarrow> pydict option \<Rightarrow> pydict option
     \<Rightarrow> ('e, unit) io" where
  "delete x category ids wher where_document =
     seq (ensure_table_exists category) (\<lambda>_.
       case ids_condition ids of
         Inl e \<Rightarrow> raise e
       | Inr by_ids \<Rightarrow>
           (let conditions = by_ids @ document_condition where_document @ where_conditions wher
            in if conditions \<noteq> [] then
                 run (DeleteWhere (table_name category) conditions)
                   (pg_delete x (table_name category) conditions)
               else raise (PyException ''No valid conditions provided for deletion.'')))"

subsection \<open>Categories\<close>

datatype postgres_category = PostgresCategory (category_name: string)

text \<open>
  The comprehension of \<^verbatim>\<open>list_collections\<close>: of every table whose name starts with
  \<^verbatim>\<open>memory_\<close>, the second piece of the name split at underscores.
\<close>

fun categories :: "string list \<Rightarrow> error + postgres_category list" where
  "categories [] = Inr []"
| "categories (n # ns) =
     (if startswith n ''memory_'' then
        (case split_on (CHR ''_'') n of
           _ # c # _ \<Rightarrow>
             (case categories ns of Inl e \<Rightarrow> Inl e | Inr cs \<Rightarrow> Inr (PostgresCategory c # cs))
         | _ \<Rightarrow> Inl IndexError)
      else categories ns)"

definition list_collections :: "('e, postgres_category list) io" where
  "list_collections =
     seq (run SelectTables pg_tables)
       (\<lambda>names. case categories names of Inl e \<Rightarrow> raise e | Inr cs \<Rightarrow> ret cs)"

definition delete_collection :: "string \<Rightarrow> ('e, unit) io" where
  "delete_collection category =
     run (DropTableIfExists (table_name category)) (pg_drop_table (table_name category))"

section \<open>Observations and a small instance\<close>

text \<open>The rows stored for a table name; a table that does not exist holds none.\<close>

definition rows_of :: "'e db \<Rightarrow> string \<Rightarrow> 'e row list" where
  "rows_of s n = (case map_of (tables s) n of None \<Rightarrow> [] | Some t \<Rightarrow> t_rows t)"

text \<open>
  An instance of the collaborators on which the functions can be run: the embedding of
  a text is its length, the distance of two embeddings their difference, integers are
  read as Python reads them, no text is a vector, and a column name is accepted when it
  has no blank.
\<close>

definition toy_ext :: "(nat, nat) ext" where
  "toy_ext =
     \<lparr>infer_embedding = length,
      vec_distance = (\<lambda>a b. if a \<le> b then b - a else a - b),
      int4_in = int_of_str,
      vector_in = (\<lambda>_. None),
      column_name_ok = list_all (\<lambda>c. c \<noteq> CHR '' '')\<rparr>"

definition empty_db :: "nat db" where
  "empty_db = \<lparr>tables = [], issued = []\<rparr>"

text \<open>
  What \<^verbatim>\<open>list_collections\<close> makes of a table name that starts with \<^verbatim>\<open>memory_\<close>:
  the text after that prefix, up to its first underscore.
\<close>

definition decoded :: "string \<Rightarrow> postgres_category" where
  "decoded n = PostgresCategory (takeWhile (\<lambda>ch. ch \<noteq> CHR ''_'') (drop 7 n))"

text \<open>
  An id of integer form: an \<open>int\<close> (a \<open>bool\<close> is one) or a string that \<^verbatim>\<open>int\<close>
  reads.
\<close>

fun integer_form :: "('e, 'd) pyval \<Rightarrow> bool" where
  "integer_form (PInt _) = True"
| "integer_form (PBool _) = True"
| "integer_form (PStr s) = (int_of_str s \<noteq> None)"
| "integer_form _ = False"

text \<open>The base columns of a row: what is left when its metadata cells are set aside.\<close>

definition core :: "'e row \<Rightarrow> int \<times> string \<times> 'e option" where
  "core r = (r_id r, r_document r, r_embedding r)"

text \<open>An assignment that leaves the document and the embedding of a row as they are.\<close>

definition keeps :: "'e assignment \<Rightarrow> bool" where
  "keeps a = (\<forall>r r'. assign a r = Inr r'
                \<longrightarrow> r_document r' = r_document r \<and> r_embedding r' = r_embedding r)"




section \<open>Properties\<close>

subsection \<open>Creating the table\<close>

lemma ensure_table_exists_result:
  "ensure_table_exists category s =
     (Inr (), s\<lparr>tables := (if map_of (tables s) (table_name category) = None
                            then tables s @ [(table_name category, \<lparr>t_columns = [], t_rows = []\<rparr>)]
                            else tables s),
                issued := issued s @ [CreateTableIfNotExists (table_name category)]\<rparr>)"
  by (simp add: ensure_table_exists_def run_def pg_create_table_def)

lemma rows_of_ensure_table_exists:
  "rows_of (snd (ensure_table_exists category s)) n = rows_of s n"
  by (auto simp add: ensure_table_exists_result rows_of_def map_add_def
      split: option.splits if_splits)

subsection \<open>Delete without predicates\<close>

text \<open>
  C2. \<^verbatim>\<open>delete\<close> with \<^verbatim>\<open>ids=None\<close>, \<^verbatim>\<open>where=None\<close> and
  \<^verbatim>\<open>where_document=None\<close> raises the exception "No valid conditions provided for
  deletion." for every category and every state. The only statement that reaches the
  engine is the \<^verbatim>\<open>CREATE TABLE IF NOT EXISTS\<close> of \<^verbatim>\<open>ensure_table_exists\<close>: no
  \<^verbatim>\<open>DELETE\<close> is issued, every table holds the rows it held, and every table that
  existed is unchanged.
\<close>

theorem delete_without_predicates:
  "fst (delete x category None None None s)
     = Inl (PyException ''No valid conditions provided for deletion.'')
   \<and> issued (snd (delete x category None None None s))
       = issued s @ [CreateTableIfNotExists (table_name category)]
   \<and> (\<forall>n. rows_of (snd (delete x category None None None s)) n = rows_of s n)
   \<and> (\<forall>n t. map_of (tables s) n = Some t
         \<longrightarrow> map_of (tables (snd (delete x category None None None s))) n = Some t)"
proof -
  have d: "delete x category None None None s
        = (Inl (PyException ''No valid conditions provided for deletion.''),
           snd (ensure_table_exists category s))"
    by (simp add: delete_def seq_def raise_def ensure_table_exists_result ids_condition_def
        document_condition_def where_conditions_def)
  show ?thesis
    unfolding d
    by (simp add: rows_of_ensure_table_exists)
       (simp add: ensure_table_exists_result map_add_def)
qed

theorem delete_without_predicates_witness:
  "fst (delete toy_ext ''notes'' None None None empty_db)
     = Inl (PyException ''No valid conditions provided for deletion.'')
   \<and> issued (snd (delete toy_ext ''notes'' None None None empty_db))
       = [CreateTableIfNotExists ''memory_notes'']
   \<and> rows_of (snd (delete toy_ext ''notes'' None None None empty_db)) ''memory_notes'' = []"
  using delete_without_predicates [of toy_ext "''notes''" empty_db]
  by (simp add: empty_db_def table_name_def rows_of_def)

subsection \<open>Arguments that are never read\<close>

text \<open>
  C5. Two calls of \<^verbatim>\<open>get\<close> that agree on \<^verbatim>\<open>ids\<close>, \<^verbatim>\<open>limit\<close> and \<^verbatim>\<open>offset\<close>
  are the same computation whatever \<^verbatim>\<open>where\<close>, \<^verbatim>\<open>where_document\<close> and
  \<^verbatim>\<open>include\<close> are, and two calls of \<^verbatim>\<open>PostgresCollection.query\<close> that agree on
  \<^verbatim>\<open>query_texts\<close> and \<^verbatim>\<open>n_results\<close> are the same computation whatever
  \<^verbatim>\<open>query_embeddings\<close>, \<^verbatim>\<open>where\<close>, \<^verbatim>\<open>where_document\<close> and \<^verbatim>\<open>include\<close> are:
  same result and same final state from every state.
\<close>

theorem unused_arguments:
  "get category ids wher limit offset where_document incl
     = get category ids wher' limit offset where_document' incl'
   \<and> collection_query x category query_embeddings query_texts n_results wher where_document incl
     = collection_query x category query_embeddings' query_texts n_results wher' where_document' incl'"
  by (simp add: get_def collection_query_def)

subsection \<open>Listing the categories\<close>

lemma split_on_takeWhile:
  "\<exists>ps. split_on sep s = takeWhile (\<lambda>ch. ch \<noteq> sep) s # ps"
  by (induction s) (auto split: list.splits)

lemma split_on_memory:
  "split_on (CHR ''_'') (''memory_'' @ rest) = ''memory'' # split_on (CHR ''_'') rest"
  by (simp split: list.splits)

lemma startswith_memory:
  "startswith n ''memory_'' \<Longrightarrow> n = ''memory_'' @ drop 7 n"
proof -
  assume "startswith n ''memory_''"
  then have "take 7 n = ''memory_''" by (simp add: startswith_def eval_nat_numeral)
  then have "take 7 n @ drop 7 n = ''memory_'' @ drop 7 n" by (rule arg_cong)
  then show ?thesis by simp
qed

lemma categories_result:
  "categories ns = Inr (map decoded (filter (\<lambda>n. startswith n ''memory_'') ns))"
proof (induction ns)
  case Nil
  show ?case by simp
next
  case (Cons n ns)
  show ?case
  proof (cases "startswith n ''memory_''")
    case True
    then have n: "n = ''memory_'' @ drop 7 n" by (rule startswith_memory)
    obtain ps where ps: "split_on (CHR ''_'') (drop 7 n)
        = takeWhile (\<lambda>ch. ch \<noteq> CHR ''_'') (drop 7 n) # ps"
      using split_on_takeWhile by blast
    have "split_on (CHR ''_'') n = split_on (CHR ''_'') (''memory_'' @ drop 7 n)"
      using n by (rule arg_cong)
    then have "split_on (CHR ''_'') n
        = ''memory'' # takeWhile (\<lambda>ch. ch \<noteq> CHR ''_'') (drop 7 n) # ps"
      using split_on_memory [of "drop 7 n"] ps by simp
    with True Cons show ?thesis by (simp add: decoded_def)
  next
    case False
    with Cons show ?thesis by simp
  qed
qed

lemma list_collections_result:
  "list_collections s
     = (Inr (map decoded (filter (\<lambda>n. startswith n ''memory_'') (map fst (tables s)))),
        s\<lparr>issued := issued s @ [SelectTables]\<rparr>)"
  by (simp add: list_collections_def seq_def run_def pg_tables_def categories_result ret_def)

lemma table_listed_after_ensure:
  "table_name category \<in> set (map fst (tables (snd (ensure_table_exists category s))))"
proof (cases "map_of (tables s) (table_name category)")
  case None
  then show ?thesis by (simp add: ensure_table_exists_result)
next
  case (Some t)
  then have "(table_name category, t) \<in> set (tables s)" by (rule map_of_SomeD)
  then have "table_name category \<in> fst ` set (tables s)" by force
  with Some show ?thesis by (simp add: ensure_table_exists_result)
qed

text \<open>
  What \<^verbatim>\<open>list_collections\<close> returns after \<^verbatim>\<open>ensure_table_exists(C)\<close>: one
  collection for each table whose name starts with \<^verbatim>\<open>memory_\<close> and none for any
  other table, named by the text between that prefix and the next underscore. The
  collection listed for \<open>C\<close> carries the part of \<open>C\<close> before its first underscore,
  which is \<open>C\<close> itself when \<open>C\<close> has no underscore.
\<close>

lemma list_collections_after_ensure:
  "\<exists>cs. fst (list_collections (snd (ensure_table_exists category s))) = Inr cs
     \<and> cs = map decoded
              (filter (\<lambda>n. startswith n ''memory_'')
                 (map fst (tables (snd (ensure_table_exists category s)))))
     \<and> PostgresCategory (takeWhile (\<lambda>ch. ch \<noteq> CHR ''_'') category) \<in> set cs
     \<and> (CHR ''_'' \<notin> set category \<longrightarrow> PostgresCategory category \<in> set cs)"
proof -
  let ?s = "snd (ensure_table_exists category s)"
  let ?cs = "map decoded (filter (\<lambda>n. startswith n ''memory_'') (map fst (tables ?s)))"
  have sw: "startswith (table_name category) ''memory_''"
    by (simp add: startswith_def table_name_def)
  have dec: "decoded (table_name category)
      = PostgresCategory (takeWhile (\<lambda>ch. ch \<noteq> CHR ''_'') category)"
    by (simp add: decoded_def table_name_def)
  have mem: "PostgresCategory (takeWhile (\<lambda>ch. ch \<noteq> CHR ''_'') category) \<in> set ?cs"
    using table_listed_after_ensure [of category s] sw dec by force
  have full: "CHR ''_'' \<notin> set category \<Longrightarrow> takeWhile (\<lambda>ch. ch \<noteq> CHR ''_'') category = category"
    by (induction category) auto
  have r: "fst (list_collections ?s) = Inr ?cs"
    by (simp add: list_collections_result)
  have all: "CHR ''_'' \<notin> set category \<longrightarrow> PostgresCategory category \<in> set ?cs"
    using mem full by metis
  from r mem all show ?thesis by blast
qed

lemma list_collections_plain_name:
  "fst (list_collections (snd (ensure_table_exists ''notes'' empty_db)))
     = Inr [PostgresCategory ''notes'']"
  using list_collections_after_ensure [of "''notes''" empty_db]
  by (simp add: ensure_table_exists_result empty_db_def table_name_def startswith_def
      decoded_def)

text \<open>
  C6. The claim does not hold of the code for a category whose name has an underscore.
  On an empty database, after \<^verbatim>\<open>ensure_table_exists("a_b")\<close> the only table is
  \<^verbatim>\<open>memory_a_b\<close>, and \<^verbatim>\<open>list_collections\<close> returns the single collection
  \<^verbatim>\<open>a\<close>: the name is cut at its first underscore by \<^verbatim>\<open>split("_")[1]\<close>, so the
  name written by \<^verbatim>\<open>_table_name\<close> is not read back.
\<close>

theorem list_collections_underscore:
  "fst (list_collections (snd (ensure_table_exists ''a_b'' empty_db)))
     = Inr [PostgresCategory ''a'']"
  by (simp add: list_collections_result ensure_table_exists_result empty_db_def table_name_def
      startswith_def decoded_def)

subsection \<open>Malformed ids\<close>

lemma ints_of_malformed:
  "list_all (\<lambda>i. is_str i \<or> is_int i) ids \<Longrightarrow> v \<in> set ids \<Longrightarrow> \<not> integer_form v
     \<Longrightarrow> ints_of ids = Inl ValueError"
proof (induction ids)
  case Nil
  then show ?case by simp
next
  case (Cons a ids)
  show ?case
  proof (cases "v = a")
    case True
    with Cons.prems have "py_int a = Inl ValueError"
      by (cases a) (auto split: option.splits)
    then show ?thesis by simp
  next
    case False
    with Cons have "ints_of ids = Inl ValueError" by simp
    moreover from Cons.prems have "py_int a = Inl ValueError \<or> (\<exists>i. py_int a = Inr i)"
      by (cases a) (auto split: option.splits)
    ultimately show ?thesis by auto
  qed
qed

text \<open>
  C7. When \<^verbatim>\<open>ids\<close> holds an element that is neither an integer nor a string that
  \<^verbatim>\<open>int\<close> reads, \<^verbatim>\<open>get\<close> raises before any statement is executed: the state,
  and with it the list of issued statements, is the one it started from. The exception
  is the module's "ids must be a list of integers or strings representing integers"
  when some element is neither \<open>str\<close> nor \<open>int\<close>, and the \<^verbatim>\<open>ValueError\<close> of
  \<^verbatim>\<open>int\<close> (a subclass of the \<^verbatim>\<open>Exception\<close> the module raises) when all
  elements pass that test and a string is no integer literal.
\<close>

theorem get_rejects_malformed_ids:
  assumes "v \<in> set ids" and "\<not> integer_form v"
  shows "get category (Some ids) wher limit offset where_document incl s
           = (Inl (if list_all (\<lambda>i. is_str i \<or> is_int i) ids then ValueError
                   else PyException ''ids must be a list of integers or strings representing integers''),
              s)"
proof -
  from assms have ne: "ids \<noteq> []" by auto
  show ?thesis
  proof (cases "list_all (\<lambda>i. is_str i \<or> is_int i) ids")
    case True
    from ints_of_malformed [OF True assms] have "ints_of ids = Inl ValueError" .
    with True ne show ?thesis by (simp add: get_def seq_def raise_def)
  next
    case False
    with ne show ?thesis by (simp add: get_def seq_def raise_def)
  qed
qed

theorem get_rejects_malformed_ids_witness:
  "get ''notes'' (Some [PInt 1, PStr ''abc'' :: (nat, nat) pyval]) None None None None [] empty_db
     = (Inl ValueError, empty_db)
   \<and> get ''notes'' (Some [PNone, PStr ''7'' :: (nat, nat) pyval]) None None None None [] empty_db
     = (Inl (PyException ''ids must be a list of integers or strings representing integers''), empty_db)"
proof -
  have a: "\<not> integer_form (PStr ''abc'' :: (nat, nat) pyval)"
    by (simp add: int_of_str_def strip_def isspace_char_def is_ascii_digit_def)
  have b: "\<not> integer_form (PNone :: (nat, nat) pyval)" by simp
  show ?thesis
    using get_rejects_malformed_ids [of "PStr ''abc''" "[PInt 1, PStr ''abc'']", OF _ a,
          of "''notes''" None None None None "[]" empty_db]
      get_rejects_malformed_ids [of PNone "[PNone, PStr ''7'']", OF _ b,
          of "''notes''" None None None None "[]" empty_db]
    by simp
qed

subsection \<open>Metadata keys and the schema\<close>

lemma map_of_put_table:
  "map_of (put_table n t ts) m = (if m = n \<and> map_of ts n \<noteq> None then Some t else map_of ts m)"
  by (induction ts) (auto simp add: put_table_def)

lemma column_exists_step:
  "run (SelectColumnExists n k) (pg_column_exists n k) s =
     (case map_of (tables s) n of
        None \<Rightarrow> (Inl (EngineError UndefinedTable), s\<lparr>issued := issued s @ [SelectColumnExists n k]\<rparr>)
      | Some t \<Rightarrow> (Inr (k \<in> set (columns_of t)), s\<lparr>issued := issued s @ [SelectColumnExists n k]\<rparr>))"
  by (simp add: run_def pg_column_exists_def find_table_def split: option.splits)

lemma add_column_step:
  "map_of (tables s) n = Some t \<Longrightarrow> k \<notin> set (columns_of t) \<Longrightarrow>
   run (AlterAddColumn n k) (pg_add_column x n k) s =
     (if column_name_ok x k then
        (Inr (), s\<lparr>tables := put_table n
                     (t\<lparr>t_columns := t_columns t @ [k],
                        t_rows := map (set_cell k None) (t_rows t)\<rparr>) (tables s),
                   issued := issued s @ [AlterAddColumn n k]\<rparr>)
      else (Inl (EngineError SyntaxError), s\<lparr>issued := issued s @ [AlterAddColumn n k]\<rparr>))"
  by (simp add: run_def pg_add_column_def find_table_def)

lemma ensure_columns_table:
  "map_of (tables s) (table_name c) = Some t \<Longrightarrow>
   ensure_metadata_columns_exist x c md s = (r, s') \<Longrightarrow>
   \<exists>new t'. issued s' = issued s @ new
     \<and> map_of (tables s') (table_name c) = Some t'
     \<and> set (columns_of t) \<subseteq> set (columns_of t')
     \<and> (r = Inr () \<or> (\<exists>e. r = Inl (EngineError e)))
     \<and> (\<forall>k. AlterAddColumn (table_name c) k \<in> set new
            \<longrightarrow> k \<in> fst ` set md \<and> k \<notin> set (columns_of t))
     \<and> (r = Inr () \<longrightarrow>
           (\<forall>k\<in>fst ` set md. k \<in> set (columns_of t')
              \<and> (k \<notin> set (columns_of t) \<longrightarrow> AlterAddColumn (table_name c) k \<in> set new)))"
proof (induction md arbitrary: s t)
  case Nil
  then show ?case by auto
next
  case (Cons kv md)
  let ?n = "table_name c"
  let ?k = "fst kv"
  let ?s1 = "s\<lparr>issued := issued s @ [SelectColumnExists ?n ?k]\<rparr>"
  have t1: "map_of (tables ?s1) ?n = Some t" using Cons.prems(1) by simp
  show ?case
  proof (cases "?k \<in> set (columns_of t)")
    case True
    with Cons.prems have run: "ensure_metadata_columns_exist x c md ?s1 = (r, s')"
      by (simp add: column_exists_step)
    from Cons.IH [OF t1 run] obtain new t' where h:
      "issued s' = issued ?s1 @ new" "map_of (tables s') ?n = Some t'"
      "set (columns_of t) \<subseteq> set (columns_of t')"
      "r = Inr () \<or> (\<exists>e. r = Inl (EngineError e))"
      "\<forall>k. AlterAddColumn ?n k \<in> set new \<longrightarrow> k \<in> fst ` set md \<and> k \<notin> set (columns_of t)"
      "r = Inr () \<longrightarrow> (\<forall>k\<in>fst ` set md. k \<in> set (columns_of t')
              \<and> (k \<notin> set (columns_of t) \<longrightarrow> AlterAddColumn ?n k \<in> set new))"
      by blast
    have "issued s' = issued s @ (SelectColumnExists ?n ?k # new)" using h(1) by simp
    moreover have "\<forall>k. AlterAddColumn ?n k \<in> set (SelectColumnExists ?n ?k # new)
            \<longrightarrow> k \<in> fst ` set (kv # md) \<and> k \<notin> set (columns_of t)"
      using h(5) by auto
    moreover have "r = Inr () \<longrightarrow> (\<forall>k\<in>fst ` set (kv # md). k \<in> set (columns_of t')
              \<and> (k \<notin> set (columns_of t)
                   \<longrightarrow> AlterAddColumn ?n k \<in> set (SelectColumnExists ?n ?k # new)))"
      using h(3,6) True by auto
    ultimately show ?thesis using h(2,3,4) by blast
  next
    case False
    show ?thesis
    proof (cases "column_name_ok x ?k")
      case no: False
      with False Cons.prems t1 have "r = Inl (EngineError SyntaxError)"
        and "s' = ?s1\<lparr>issued := issued ?s1 @ [AlterAddColumn ?n ?k]\<rparr>"
        by (auto simp add: column_exists_step add_column_step)
      then have "issued s' = issued s @ [SelectColumnExists ?n ?k, AlterAddColumn ?n ?k]"
        and "map_of (tables s') ?n = Some t" and "r \<noteq> Inr ()"
        and "\<exists>e. r = Inl (EngineError e)"
        using Cons.prems(1) by auto
      moreover have "\<forall>k. AlterAddColumn ?n k \<in> set [SelectColumnExists ?n ?k, AlterAddColumn ?n ?k]
            \<longrightarrow> k \<in> fst ` set (kv # md) \<and> k \<notin> set (columns_of t)"
        using False by auto
      ultimately show ?thesis by blast
    next
      case ok: True
      let ?t2 = "t\<lparr>t_columns := t_columns t @ [?k], t_rows := map (set_cell ?k None) (t_rows t)\<rparr>"
      let ?s2 = "?s1\<lparr>tables := put_table ?n ?t2 (tables ?s1),
                     issued := issued ?s1 @ [AlterAddColumn ?n ?k]\<rparr>"
      have t2: "map_of (tables ?s2) ?n = Some ?t2"
        using Cons.prems(1) by (simp add: map_of_put_table)
      have cols2: "set (columns_of ?t2) = insert ?k (set (columns_of t))"
        by (simp add: columns_of_def)
      from ok False Cons.prems t1 have run: "ensure_metadata_columns_exist x c md ?s2 = (r, s')"
        by (simp add: column_exists_step add_column_step)
      from Cons.IH [OF t2 run] obtain new t' where h:
        "issued s' = issued ?s2 @ new" "map_of (tables s') ?n = Some t'"
        "set (columns_of ?t2) \<subseteq> set (columns_of t')"
        "r = Inr () \<or> (\<exists>e. r = Inl (EngineError e))"
        "\<forall>k. AlterAddColumn ?n k \<in> set new \<longrightarrow> k \<in> fst ` set md \<and> k \<notin> set (columns_of ?t2)"
        "r = Inr () \<longrightarrow> (\<forall>k\<in>fst ` set md. k \<in> set (columns_of t')
                \<and> (k \<notin> set (columns_of ?t2) \<longrightarrow> AlterAddColumn ?n k \<in> set new))"
        by blast
      let ?new = "SelectColumnExists ?n ?k # AlterAddColumn ?n ?k # new"
      have "issued s' = issued s @ ?new" using h(1) by simp
      moreover have "set (columns_of t) \<subseteq> set (columns_of t')" using h(3) cols2 by auto
      moreover have "\<forall>k. AlterAddColumn ?n k \<in> set ?new
            \<longrightarrow> k \<in> fst ` set (kv # md) \<and> k \<notin> set (columns_of t)"
        using h(5) cols2 False by auto
      moreover have "r = Inr () \<longrightarrow> (\<forall>k\<in>fst ` set (kv # md). k \<in> set (columns_of t')
              \<and> (k \<notin> set (columns_of t) \<longrightarrow> AlterAddColumn ?n k \<in> set ?new))"
        using h(3,6) cols2 by auto
      ultimately show ?thesis using h(2,4) by blast
    qed
  qed
qed





subsection \<open>The id of an inserted row\<close>

lemma core_set_cell: "core (set_cell k v r) = core r"
  by (simp add: core_def set_cell_def)

lemma rows_of_put_table:
  "map_of (tables s) n = Some t \<Longrightarrow>
   rows_of (s\<lparr>tables := put_table n t' (tables s), issued := q\<rparr>) m
     = (if m = n then t_rows t' else rows_of s m)"
  by (simp add: rows_of_def map_of_put_table)

lemma rows_of_issued: "rows_of (s\<lparr>issued := q\<rparr>) m = rows_of s m"
  by (simp add: rows_of_def)

lemma ensure_columns_core:
  "ensure_metadata_columns_exist x c md s = (r, s') \<Longrightarrow>
   map core (rows_of s' n) = map core (rows_of s n)"
proof (induction md arbitrary: s)
  case Nil
  then show ?case by simp
next
  case (Cons kv md)
  let ?n = "table_name c"
  let ?k = "fst kv"
  let ?s1 = "s\<lparr>issued := issued s @ [SelectColumnExists ?n ?k]\<rparr>"
  show ?case
  proof (cases "map_of (tables s) ?n")
    case None
    with Cons.prems have "s' = ?s1" by (simp add: column_exists_step)
    then show ?thesis by (simp add: rows_of_issued)
  next
    case (Some t)
    then have t1: "map_of (tables ?s1) ?n = Some t" by simp
    show ?thesis
    proof (cases "?k \<in> set (columns_of t)")
      case True
      with Cons.prems Some have "ensure_metadata_columns_exist x c md ?s1 = (r, s')"
        by (simp add: column_exists_step)
      from Cons.IH [OF this] show ?thesis by (simp add: rows_of_issued)
    next
      case False
      show ?thesis
      proof (cases "column_name_ok x ?k")
        case no: False
        with False Cons.prems Some t1
        have "s' = ?s1\<lparr>issued := issued ?s1 @ [AlterAddColumn ?n ?k]\<rparr>"
          by (auto simp add: column_exists_step add_column_step)
        then show ?thesis by (simp add: rows_of_def)
      next
        case ok: True
        let ?t2 = "t\<lparr>t_columns := t_columns t @ [?k], t_rows := map (set_cell ?k None) (t_rows t)\<rparr>"
        let ?s2 = "?s1\<lparr>tables := put_table ?n ?t2 (tables ?s1),
                       issued := issued ?s1 @ [AlterAddColumn ?n ?k]\<rparr>"
        from ok False Cons.prems Some t1
        have "ensure_metadata_columns_exist x c md ?s2 = (r, s')"
          by (simp add: column_exists_step add_column_step)
        from Cons.IH [OF this] have "map core (rows_of s' n) = map core (rows_of ?s2 n)" .
        also have "\<dots> = map core (rows_of s n)"
          using Some by (simp add: rows_of_def map_of_put_table core_set_cell)
        finally show ?thesis .
      qed
    qed
  qed
qed

lemma count_result:
  "map_of (tables s) (table_name c) = Some t \<Longrightarrow>
   count c s = (Inr (int (length (t_rows t))),
                s\<lparr>issued := issued s @ [CreateTableIfNotExists (table_name c),
                                         SelectCount (table_name c)]\<rparr>)"
  by (simp add: count_def seq_def ensure_table_exists_result run_def pg_count_def find_table_def)

lemma insert_step:
  "map_of (tables s) n = Some t \<Longrightarrow>
   run (InsertRow n i d e md) (pg_insert n i d e md) s = (Inr j, s') \<Longrightarrow>
   j = i \<and> i \<notin> set (map r_id (t_rows t)) \<and>
   s' = s\<lparr>tables := put_table n
             (t\<lparr>t_rows := t_rows t @
                 [\<lparr>r_id = i, r_document = d, r_embedding = Some e,
                   r_meta = map (\<lambda>c. (c, case map_of md c of None \<Rightarrow> None | Some v \<Rightarrow> v))
                              (t_columns t)\<rparr>]\<rparr>) (tables s),
           issued := issued s @ [InsertRow n i d e md]\<rparr>"
  by (auto simp add: run_def pg_insert_def find_table_def split: option.splits if_splits)

lemma ensure_table_exists_table:
  "\<exists>t. map_of (tables (snd (ensure_table_exists c s))) (table_name c) = Some t"
  by (auto simp add: ensure_table_exists_result map_add_def)

text \<open>
  C10. When \<^verbatim>\<open>insert_memory\<close> is called without an id and returns, the id it
  returns is the number of rows the category's table held when the call began (none if
  the table did not exist): the calls before the count create the table and add columns,
  which leaves the rows in place, so this is the count taken by the \<^verbatim>\<open>SELECT COUNT(*)\<close>
  issued immediately before the \<^verbatim>\<open>INSERT\<close>. The new row is stored last under that id
  with the document and the embedding given or computed, and the \<^verbatim>\<open>INSERT\<close> carries
  that id.
\<close>

theorem insert_assigns_row_count:
  assumes "insert_memory x category document metadata embedding None s = (Inr i, s')"
  shows "i = int (length (rows_of s (table_name category)))
     \<and> (\<exists>old m. rows_of s' (table_name category)
            = old @ [\<lparr>r_id = i, r_document = document,
                       r_embedding = Some (case embedding of
                                             None \<Rightarrow> create_embedding x document
                                           | Some e \<Rightarrow> e),
                       r_meta = m\<rparr>]
          \<and> map core old = map core (rows_of s (table_name category)))
     \<and> (\<exists>before. issued s'
            = before @ [CreateTableIfNotExists (table_name category),
                        SelectCount (table_name category),
                        InsertRow (table_name category) i document
                          (case embedding of None \<Rightarrow> create_embedding x document | Some e \<Rightarrow> e)
                          metadata])"
proof -
  let ?n = "table_name category"
  let ?e = "case embedding of None \<Rightarrow> create_embedding x document | Some e \<Rightarrow> e"
  let ?s1 = "snd (ensure_table_exists category s)"
  obtain r2 s2 where m: "ensure_metadata_columns_exist x category metadata ?s1 = (r2, s2)"
    by (cases "ensure_metadata_columns_exist x category metadata ?s1")
  obtain t1 where t1: "map_of (tables ?s1) ?n = Some t1"
    using ensure_table_exists_table by blast
  from ensure_columns_table [OF t1 m] obtain t2 where t2: "map_of (tables s2) ?n = Some t2"
    by blast
  have r2: "r2 = Inr ()"
    using assms m by (cases r2) (auto simp add: insert_memory_def seq_def ensure_table_exists_result)
  let ?s3 = "s2\<lparr>issued := issued s2 @ [CreateTableIfNotExists ?n, SelectCount ?n]\<rparr>"
  have ins: "run (InsertRow ?n (int (length (t_rows t2))) document ?e metadata)
               (pg_insert ?n (int (length (t_rows t2))) document ?e metadata) ?s3 = (Inr i, s')"
    using assms m r2 count_result [OF t2]
    by (simp add: insert_memory_def seq_def ensure_table_exists_result Let_def)
  have t3: "map_of (tables ?s3) ?n = Some t2" using t2 by simp
  from insert_step [OF t3 ins] have i: "i = int (length (t_rows t2))"
    and s': "s' = ?s3\<lparr>tables := put_table ?n
             (t2\<lparr>t_rows := t_rows t2 @
                 [\<lparr>r_id = int (length (t_rows t2)), r_document = document, r_embedding = Some ?e,
                   r_meta = map (\<lambda>c. (c, case map_of metadata c of None \<Rightarrow> None | Some v \<Rightarrow> v))
                              (t_columns t2)\<rparr>]\<rparr>) (tables ?s3),
           issued := issued ?s3 @ [InsertRow ?n (int (length (t_rows t2))) document ?e metadata]\<rparr>"
    by auto
  have rows2: "rows_of s2 ?n = t_rows t2" using t2 by (simp add: rows_of_def)
  have c2: "map core (rows_of s2 ?n) = map core (rows_of s ?n)"
    using ensure_columns_core [OF m, of ?n] by (simp add: rows_of_ensure_table_exists)
  then have "length (t_rows t2) = length (rows_of s ?n)"
    using rows2 by (metis length_map)
  with i have 1: "i = int (length (rows_of s ?n))" by simp
  have "rows_of s' ?n = t_rows t2 @
                 [\<lparr>r_id = i, r_document = document, r_embedding = Some ?e,
                   r_meta = map (\<lambda>c. (c, case map_of metadata c of None \<Rightarrow> None | Some v \<Rightarrow> v))
                              (t_columns t2)\<rparr>]"
    using s' t2 i by (simp add: rows_of_def map_of_put_table)
  with c2 rows2 have 2: "\<exists>old m. rows_of s' ?n
            = old @ [\<lparr>r_id = i, r_document = document, r_embedding = Some ?e, r_meta = m\<rparr>]
          \<and> map core old = map core (rows_of s ?n)"
    by auto
  have "issued s' = issued s2 @ [CreateTableIfNotExists ?n, SelectCount ?n,
                        InsertRow ?n i document ?e metadata]"
    using s' i by simp
  then have 3: "\<exists>before. issued s'
            = before @ [CreateTableIfNotExists ?n, SelectCount ?n,
                        InsertRow ?n i document ?e metadata]"
    by blast
  from 1 2 3 show ?thesis by blast
qed

theorem insert_assigns_row_count_witness:
  "fst (insert_memory toy_ext ''notes'' ''second'' [(''tag'', Some ''a'')] None None
          (snd (insert_memory toy_ext ''notes'' ''first'' [] None None empty_db))) = Inr 1
   \<and> length (rows_of (snd (insert_memory toy_ext ''notes'' ''first'' [] None None empty_db))
               ''memory_notes'') = 1
   \<and> (\<exists>before.
         issued (snd (insert_memory toy_ext ''notes'' ''second'' [(''tag'', Some ''a'')] None None
                        (snd (insert_memory toy_ext ''notes'' ''first'' [] None None empty_db))))
           = before @ [CreateTableIfNotExists ''memory_notes'', SelectCount ''memory_notes'',
                       InsertRow ''memory_notes'' 1 ''second'' 6 [(''tag'', Some ''a'')]])"
proof -
  let ?s = "snd (insert_memory toy_ext ''notes'' ''first'' [] None None empty_db)"
  let ?r = "insert_memory toy_ext ''notes'' ''second'' [(''tag'', Some ''a'')] None None ?s"
  have f: "fst ?r = Inr 1" by code_simp
  then have "?r = (Inr 1, snd ?r)" by (metis prod.collapse)
  moreover have "create_embedding toy_ext ''second'' = 6"
    by (simp add: create_embedding_def toy_ext_def)
  ultimately show ?thesis
    using insert_assigns_row_count [of toy_ext "''notes''" "''second''" "[(''tag'', Some ''a'')]"
        None ?s 1 "snd ?r"] f
    by (simp add: table_name_def)
qed

subsection \<open>Updating a document\<close>

lemma check_targets_fresh:
  "check_targets cols dup seen ts = None \<Longrightarrow> set ts \<inter> set seen = {} \<and> distinct ts"
proof (induction ts arbitrary: seen)
  case Nil
  then show ?case by simp
next
  case (Cons a ts)
  from Cons.prems have a: "a \<notin> set seen"
    and rest: "check_targets cols dup (a # seen) ts = None"
    by (auto split: if_splits)
  from Cons.IH [OF rest] have "set ts \<inter> set (a # seen) = {}" and "distinct ts" by simp_all
  with a show ?case by auto
qed

lemma coerce_keeps:
  "fst kv \<noteq> ''document'' \<Longrightarrow> fst kv \<noteq> ''embedding'' \<Longrightarrow> coerce x kv = Inr a \<Longrightarrow> keeps a"
  by (auto simp add: coerce_def keeps_def set_cell_def split: if_splits option.splits)

lemma coerce_all_keeps:
  "''document'' \<notin> fst ` set md \<Longrightarrow> ''embedding'' \<notin> fst ` set md \<Longrightarrow>
   coerce_all x md = Inr as \<Longrightarrow> \<forall>a\<in>set as. keeps a"
proof (induction md arbitrary: as)
  case Nil
  then show ?case by simp
next
  case (Cons kv md)
  from Cons.prems(3) obtain a as' where a: "coerce x kv = Inr a"
    and as': "coerce_all x md = Inr as'" and eq: "as = a # as'"
    by (auto split: sum.splits)
  from Cons.prems(1,2) have "fst kv \<noteq> ''document''" and "fst kv \<noteq> ''embedding''"
    by auto
  from coerce_keeps [OF this a] have "keeps a" .
  moreover from Cons.IH [OF _ _ as'] Cons.prems(1,2) have "\<forall>a\<in>set as'. keeps a" by simp
  ultimately show ?case using eq by simp
qed

lemma assign_all_keeps:
  "\<forall>a\<in>set as. keeps a \<Longrightarrow> assign_all as r = Inr r' \<Longrightarrow>
   r_document r' = r_document r \<and> r_embedding r' = r_embedding r"
proof (induction as arbitrary: r)
  case Nil
  then show ?case by simp
next
  case (Cons a as)
  from Cons.prems(2) obtain r1 where r1: "assign a r = Inr r1" and rest: "assign_all as r1 = Inr r'"
    by (auto split: sum.splits)
  from Cons.prems(1) r1 have "r_document r1 = r_document r \<and> r_embedding r1 = r_embedding r"
    by (simp add: keeps_def)
  moreover from Cons.IH [OF _ rest] Cons.prems(1)
  have "r_document r' = r_document r1 \<and> r_embedding r' = r_embedding r1" by simp
  ultimately show ?case by simp
qed

lemma update_rows_document:
  "\<forall>a\<in>set as. keeps a \<Longrightarrow>
   update_rows (SetDocument d # SetEmbedding (Some e) # as) i rs = Inr rs' \<Longrightarrow>
   list_all2 (\<lambda>r r'. if r_id r = i then r_document r' = d \<and> r_embedding r' = Some e
                      else r' = r) rs rs'"
proof (induction rs arbitrary: rs')
  case Nil
  then show ?case by simp
next
  case (Cons r rs)
  from Cons.prems(2) obtain r1 rs1 where
    r1: "(if r_id r = i then assign_all (SetDocument d # SetEmbedding (Some e) # as) r else Inr r)
           = Inr r1"
    and rs1: "update_rows (SetDocument d # SetEmbedding (Some e) # as) i rs = Inr rs1"
    and eq: "rs' = r1 # rs1"
    by (auto split: sum.splits)
  have "if r_id r = i then r_document r1 = d \<and> r_embedding r1 = Some e else r1 = r"
  proof (cases "r_id r = i")
    case True
    with r1 have "assign_all as (r\<lparr>r_document := d, r_embedding := Some e\<rparr>) = Inr r1"
      by simp
    from assign_all_keeps [OF Cons.prems(1) this] True show ?thesis by simp
  next
    case False
    with r1 show ?thesis by simp
  qed
  with Cons.IH [OF Cons.prems(1) rs1] eq show ?case by simp
qed

lemma update_step:
  assumes "map_of (tables s) n = Some t"
    and "run (UpdateRow n (Some (d, e)) md i) (pg_update x n (Some (d, e)) md i) s = (Inr u, s')"
  shows "\<exists>rs. list_all2 (\<lambda>r r'. if r_id r = i then r_document r' = d \<and> r_embedding r' = Some e
                                else r' = r) (t_rows t) rs
           \<and> s' = s\<lparr>tables := put_table n (t\<lparr>t_rows := rs\<rparr>) (tables s),
                     issued := issued s @ [UpdateRow n (Some (d, e)) md i]\<rparr>"
proof -
  from assms obtain as rs where
    ct: "check_targets (columns_of t) SyntaxError [] ([''document'', ''embedding''] @ map fst md) = None"
    and co: "coerce_all x md = Inr as"
    and up: "update_rows (SetDocument d # SetEmbedding (Some e) # as) i (t_rows t) = Inr rs"
    and s': "s' = s\<lparr>tables := put_table n (t\<lparr>t_rows := rs\<rparr>) (tables s),
                     issued := issued s @ [UpdateRow n (Some (d, e)) md i]\<rparr>"
    by (auto simp add: run_def pg_update_def find_table_def Let_def
        split: option.splits sum.splits if_splits)
  from check_targets_fresh [OF ct] have "distinct ([''document'', ''embedding''] @ map fst md)"
    by simp
  then have "''document'' \<notin> fst ` set md" and "''embedding'' \<notin> fst ` set md"
    by auto
  from coerce_all_keeps [OF this co] have "\<forall>a\<in>set as. keeps a" .
  from update_rows_document [OF this up] s' show ?thesis by blast
qed

lemma list_all2_core:
  assumes "map core rs0 = map core rs1"
    and "list_all2 (\<lambda>r r'. if r_id r = i then P r' else r' = r) rs1 rs2"
  shows "list_all2 (\<lambda>r r'. if r_id r = i then P r' else core r' = core r) rs0 rs2"
proof -
  from assms(1) have len: "length rs0 = length rs1" by (metis length_map)
  have c: "\<And>j. j < length rs0 \<Longrightarrow> core (rs0 ! j) = core (rs1 ! j)"
    using assms(1) len by (metis nth_map)
  then have "\<And>j. j < length rs0 \<Longrightarrow> r_id (rs0 ! j) = r_id (rs1 ! j)"
    by (simp add: core_def)
  with assms(2) len c show ?thesis
    by (auto simp add: list_all2_conv_all_nth)
qed

text \<open>
  C9, as amended. When \<^verbatim>\<open>PostgresClient.update\<close> is given a non-empty document and
  no embedding and returns, one \<^verbatim>\<open>UPDATE\<close> was issued last, carrying the document
  together with the embedding computed from it; every row that had the given id now
  holds that document and that embedding, and every other row keeps its id, document
  and embedding. (An empty document is taken as no document, see below.)
\<close>

theorem update_document_refreshes_embedding:
  assumes "document \<noteq> []"
    and "client_update x category ident (Some document) metadata None s = (Inr (), s')"
  shows "list_all2
           (\<lambda>r r'. if r_id r = ident
                    then r_document r' = document
                         \<and> r_embedding r' = Some (create_embedding x document)
                    else core r' = core r)
           (rows_of s (table_name category)) (rows_of s' (table_name category))
     \<and> (\<exists>before md. issued s'
            = before @ [UpdateRow (table_name category)
                          (Some (document, create_embedding x document)) md ident])"
proof -
  let ?n = "table_name category"
  let ?e = "create_embedding x document"
  let ?s1 = "snd (ensure_table_exists category s)"
  let ?P = "\<lambda>r r'. if r_id r = ident then r_document r' = document \<and> r_embedding r' = Some ?e
                    else r' = r"
  obtain t1 where t1: "map_of (tables ?s1) ?n = Some t1"
    using ensure_table_exists_table by blast
  have "\<exists>s2 t2 md. map core (rows_of s2 ?n) = map core (rows_of s ?n)
          \<and> map_of (tables s2) ?n = Some t2
          \<and> run (UpdateRow ?n (Some (document, ?e)) md ident)
                (pg_update x ?n (Some (document, ?e)) md ident) s2 = (Inr (), s')"
  proof (cases "metadata = None \<or> metadata = Some []")
    case True
    with assms have "run (UpdateRow ?n (Some (document, ?e)) [] ident)
                (pg_update x ?n (Some (document, ?e)) [] ident) ?s1 = (Inr (), s')"
      by (auto simp add: client_update_def seq_def ensure_table_exists_result Let_def)
    with t1 show ?thesis
      using rows_of_ensure_table_exists [of category s ?n] by metis
  next
    case False
    then obtain md where md: "metadata = Some md" "md \<noteq> []" by auto
    obtain r2 s2 where m: "ensure_metadata_columns_exist x category md ?s1 = (r2, s2)"
      by (cases "ensure_metadata_columns_exist x category md ?s1")
    from ensure_columns_table [OF t1 m] obtain t2 where t2: "map_of (tables s2) ?n = Some t2"
      by blast
    have r2: "r2 = Inr ()"
      using assms md m
      by (cases r2) (auto simp add: client_update_def seq_def ensure_table_exists_result Let_def)
    have "run (UpdateRow ?n (Some (document, ?e)) md ident)
                (pg_update x ?n (Some (document, ?e)) md ident) s2 = (Inr (), s')"
      using assms md m r2
      by (simp add: client_update_def seq_def ensure_table_exists_result Let_def)
    moreover have "map core (rows_of s2 ?n) = map core (rows_of s ?n)"
      using ensure_columns_core [OF m, of ?n] by (simp add: rows_of_ensure_table_exists)
    ultimately show ?thesis using t2 by blast
  qed
  then obtain s2 t2 md where c: "map core (rows_of s2 ?n) = map core (rows_of s ?n)"
    and t2: "map_of (tables s2) ?n = Some t2"
    and u: "run (UpdateRow ?n (Some (document, ?e)) md ident)
                (pg_update x ?n (Some (document, ?e)) md ident) s2 = (Inr (), s')"
    by blast
  from update_step [OF t2 u] obtain rs where rs: "list_all2 ?P (t_rows t2) rs"
    and s': "s' = s2\<lparr>tables := put_table ?n (t2\<lparr>t_rows := rs\<rparr>) (tables s2),
                     issued := issued s2 @ [UpdateRow ?n (Some (document, ?e)) md ident]\<rparr>"
    by blast
  have rows2: "rows_of s2 ?n = t_rows t2" using t2 by (simp add: rows_of_def)
  have rows': "rows_of s' ?n = rs" using s' t2 by (simp add: rows_of_def map_of_put_table)
  have "list_all2 (\<lambda>r r'. if r_id r = ident
                    then r_document r' = document \<and> r_embedding r' = Some ?e
                    else core r' = core r) (rows_of s ?n) rs"
    using list_all2_core [OF c [symmetric], of ident
        "\<lambda>r'. r_document r' = document \<and> r_embedding r' = Some ?e" rs] rs rows2
    by simp
  moreover have "\<exists>before md. issued s'
            = before @ [UpdateRow ?n (Some (document, ?e)) md ident]"
    using s' by simp
  ultimately show ?thesis using rows' by simp
qed

theorem update_document_refreshes_embedding_witness:
  "fst (client_update toy_ext ''notes'' 0 (Some ''hello'') None None
          (snd (insert_memory toy_ext ''notes'' ''first'' [] None None empty_db))) = Inr ()
   \<and> map (\<lambda>r'. (r_document r', r_embedding r'))
         (rows_of (snd (client_update toy_ext ''notes'' 0 (Some ''hello'') None None
                   (snd (insert_memory toy_ext ''notes'' ''first'' [] None None empty_db))))
            ''memory_notes'')
       = [(''hello'', Some 5)]"
proof -
  let ?s = "snd (insert_memory toy_ext ''notes'' ''first'' [] None None empty_db)"
  let ?r = "client_update toy_ext ''notes'' 0 (Some ''hello'') None None ?s"
  have f: "fst ?r = Inr ()" by code_simp
  then have r: "?r = (Inr (), snd ?r)" by (metis prod.collapse)
  have rows: "rows_of ?s ''memory_notes''
       = [\<lparr>r_id = 0, r_document = ''first'', r_embedding = Some 5, r_meta = []\<rparr>]"
    by code_simp
  have e: "create_embedding toy_ext ''hello'' = 5"
    by (simp add: create_embedding_def toy_ext_def)
  have ne: "''hello'' \<noteq> []" by simp
  from update_document_refreshes_embedding [OF ne r] rows e f show ?thesis
    by (auto simp add: table_name_def list_all2_Cons1)
qed

text \<open>
  The claim as stated fails for the empty document: \<^verbatim>\<open>if document:\<close> is false for
  it, so nothing is written and no embedding is computed; the row keeps its old
  document.
\<close>

theorem update_empty_document_ignored:
  "client_update toy_ext ''notes'' 0 (Some '''') None None
       (snd (insert_memory toy_ext ''notes'' ''first'' [] None None empty_db))
     = (Inr (),
        \<lparr>tables = [(''memory_notes'',
                     \<lparr>t_columns = [],
                      t_rows = [\<lparr>r_id = 0, r_document = ''first'', r_embedding = Some 5,
                                 r_meta = []\<rparr>]\<rparr>)],
         issued = [CreateTableIfNotExists ''memory_notes'',
                   CreateTableIfNotExists ''memory_notes'', SelectCount ''memory_notes'',
                   InsertRow ''memory_notes'' 0 ''first'' 5 [],
                   CreateTableIfNotExists ''memory_notes'']\<rparr>)"
  by code_simp

subsection \<open>Adding with caller-supplied ids\<close>

lemma add_then_get_1:
  "fst (add toy_ext ''notes'' [PInt 1] (Some [''x'']) (Some [[(''tag'', Some ''a'')]]) None empty_db)
     = Inr ()"
  by code_simp

lemma add_then_get_2:
  "rows_of (snd (add toy_ext ''notes'' [PInt 1] (Some [''x''])
                   (Some [[(''tag'', Some ''a'')]]) None empty_db)) ''memory_notes''
     = [\<lparr>r_id = 0, r_document = ''x'', r_embedding = Some 1, r_meta = [(''tag'', Some ''a'')]\<rparr>]"
  by code_simp

lemma add_then_get_3:
  "fst (get ''notes'' (Some [PInt 1 :: (nat, nat) pyval]) None None None None
          [''metadatas'', ''documents'']
          (snd (add toy_ext ''notes'' [PInt 1] (Some [''x''])
                  (Some [[(''tag'', Some ''a'')]]) None empty_db)))
     = Inr \<lparr>g_ids = [], g_documents = [], g_metadatas = []\<rparr>"
  by code_simp

lemma add_then_get_4:
  "fst (get ''notes'' (Some [PInt 0 :: (nat, nat) pyval]) None None None None
          [''metadatas'', ''documents'']
          (snd (add toy_ext ''notes'' [PInt 1] (Some [''x''])
                  (Some [[(''tag'', Some ''a'')]]) None empty_db)))
     = Inr \<lparr>g_ids = [PInt 0], g_documents = [PStr ''x''],
            g_metadatas = [[(''tag'', PStr ''a'')]]\<rparr>"
  by code_simp

lemma add_then_get_5:
  "rows_of (snd (insert_memory toy_ext ''notes'' ''x'' [(''tag'', Some ''a'')] None (Some 1)
                   empty_db)) ''memory_notes''
     = [\<lparr>r_id = 1, r_document = ''x'', r_embedding = Some 1, r_meta = [(''tag'', Some ''a'')]\<rparr>]"
  by code_simp

text \<open>
  C1. The claim does not hold of the code. On an empty database,
  \<^verbatim>\<open>add(ids=[1], documents=["x"], metadatas=[{"tag": "a"}])\<close> succeeds and stores the
  row under id 0, the row count, because \<^verbatim>\<open>PostgresCollection.add\<close> drops the id it
  was given; \<^verbatim>\<open>get(ids=[1])\<close> then returns no record, and the record comes back under
  \<^verbatim>\<open>get(ids=[0])\<close>. \<^verbatim>\<open>insert_memory\<close> itself stores under the id it is passed.
\<close>

theorem add_ignores_supplied_id:
  "fst (add toy_ext ''notes'' [PInt 1] (Some [''x'']) (Some [[(''tag'', Some ''a'')]]) None empty_db)
     = Inr ()
   \<and> rows_of (snd (add toy_ext ''notes'' [PInt 1] (Some [''x''])
                     (Some [[(''tag'', Some ''a'')]]) None empty_db)) ''memory_notes''
     = [\<lparr>r_id = 0, r_document = ''x'', r_embedding = Some 1, r_meta = [(''tag'', Some ''a'')]\<rparr>]
   \<and> fst (get ''notes'' (Some [PInt 1 :: (nat, nat) pyval]) None None None None
            [''metadatas'', ''documents'']
            (snd (add toy_ext ''notes'' [PInt 1] (Some [''x''])
                    (Some [[(''tag'', Some ''a'')]]) None empty_db)))
     = Inr \<lparr>g_ids = [], g_documents = [], g_metadatas = []\<rparr>
   \<and> fst (get ''notes'' (Some [PInt 0 :: (nat, nat) pyval]) None None None None
            [''metadatas'', ''documents'']
            (snd (add toy_ext ''notes'' [PInt 1] (Some [''x''])
                    (Some [[(''tag'', Some ''a'')]]) None empty_db)))
     = Inr \<lparr>g_ids = [PInt 0], g_documents = [PStr ''x''],
            g_metadatas = [[(''tag'', PStr ''a'')]]\<rparr>
   \<and> rows_of (snd (insert_memory toy_ext ''notes'' ''x'' [(''tag'', Some ''a'')] None (Some 1)
                     empty_db)) ''memory_notes''
     = [\<lparr>r_id = 1, r_document = ''x'', r_embedding = Some 1, r_meta = [(''tag'', Some ''a'')]\<rparr>]"
  by (intro conjI) (rule add_then_get_1 add_then_get_2 add_then_get_3 add_then_get_4
      add_then_get_5)+

subsection \<open>Similarity search returns one batch per text\<close>

















subsection \<open>The metadata returned by get\<close>












end
